theory Spec2Isabelle
  imports Complex_Main "HOL-Library.Sublist" "HOL-Library.Char_ord" "HOL-Library.List_Lexorder"
    "HOL-Library.AList"
begin

section \<open>Data model\<close>

subsection \<open>JSON values as Python loads them\<close>

text \<open>
  A value returned by \<^verbatim>\<open>json.load\<close>: \<^verbatim>\<open>None\<close>, a bool, an int, a float, a str, a list or a
  dict with string keys. Floating point numbers are kept abstract (the type parameter
  \<open>'f\<close>). A dict is an association list in insertion order; \<open>map_of\<close> looks a key up.
  A Python \<^verbatim>\<open>str\<close> is represented by its UTF-8 bytes.
\<close>

datatype 'f json =
    JNull
  | JBool bool
  | JInt int
  | JFloat 'f
  | JStr string
  | JArr "'f json list"
  | JObj "(string \<times> 'f json) list"

text \<open>
  \<^verbatim>\<open>d.get(key, default)\<close>. Only a dict has the method: on any other JSON value Python raises
  AttributeError, which is \<open>None\<close> here.
\<close>

definition py_get :: "'f json \<Rightarrow> string \<Rightarrow> 'f json \<Rightarrow> 'f json option" where
  "py_get j k dflt =
     (case j of
        JObj kv \<Rightarrow> Some (case map_of kv k of Some v \<Rightarrow> v | None \<Rightarrow> dflt)
      | _ \<Rightarrow> None)"

subsection \<open>The results directory\<close>

text \<open>
  The persisted state is a tree: a regular file holds its bytes, a directory holds named
  entries in the order \<^verbatim>\<open>iterdir\<close> lists them. A path \<^verbatim>\<open>dir / name\<close> is the entry \<open>name\<close> of
  the directory: this is the path Python forms when the name is a single path component
  other than \<^verbatim>\<open>.\<close> and \<^verbatim>\<open>..\<close>, as the identifiers of strategies are in the layout
  \<^verbatim>\<open><root>/<identifier>/\<close>.
\<close>

datatype node = File string | Dir "(string \<times> node) list"

type_synonym dir = "(string \<times> node) list"

text \<open>
  The part of \<^verbatim>\<open>StrategyBacktester\<close> that the functions below read: the configuration
  fields set by \<^verbatim>\<open>__init__\<close>.
\<close>

record backtester =
  config_path :: string
  start_date :: string
  end_date :: string
  timeframe :: string
  strategy_timeout :: nat

text \<open>
  \<open>results_dir\<close> is \<^verbatim>\<open>user_data/backtest_results\<close>: \<open>None\<close> when the path does not exist.
\<close>

type_synonym results_dir = "node option"

definition child :: "node option \<Rightarrow> string \<Rightarrow> node option" where
  "child p name = (case p of Some (Dir es) \<Rightarrow> map_of es name | _ \<Rightarrow> None)"

definition individual_results_dir :: "results_dir \<Rightarrow> node option" where
  "individual_results_dir rdir = child rdir ''individual_results''"

section \<open>ResultStore: loading a persisted result\<close>

text \<open>\<^verbatim>\<open>get_strategy_result_file\<close>: the node at \<^verbatim>\<open>individual_results/<name>_result.json\<close>.\<close>

definition get_strategy_result_file :: "results_dir \<Rightarrow> string \<Rightarrow> node option" where
  "get_strategy_result_file rdir strategy_name =
     child (individual_results_dir rdir) (strategy_name @ ''_result.json'')"

text \<open>
  \<^verbatim>\<open>result.get('backtest_config', {}).get(key)\<close>; \<open>None\<close> is the AttributeError raised when
  \<open>result\<close> or the stored configuration is not a dict.
\<close>

definition config_field :: "'f json \<Rightarrow> string \<Rightarrow> 'f json option" where
  "config_field result k =
     (case py_get result ''backtest_config'' (JObj []) of
        None \<Rightarrow> None
      | Some cfg \<Rightarrow> py_get cfg k JNull)"

text \<open>
  \<^verbatim>\<open>load_existing_result\<close>. \<open>loads\<close> is \<^verbatim>\<open>json.load\<close> on the bytes of the file (\<open>None\<close>: it
  raises). Opening a directory raises; every exception is caught and gives \<^verbatim>\<open>None\<close>. The
  comparison with \<^verbatim>\<open>self.start_date\<close>, a str, holds for an equal JSON string only; the
  \<^verbatim>\<open>and\<close> evaluates the end bound only when the start bound matched.
\<close>

definition load_existing_result ::
  "(string \<Rightarrow> 'f json option) \<Rightarrow> backtester \<Rightarrow> results_dir \<Rightarrow> string \<Rightarrow> 'f json option" where
  "load_existing_result loads bt rdir strategy_name =
     (case get_strategy_result_file rdir strategy_name of
        None \<Rightarrow> None
      | Some (Dir _) \<Rightarrow> None
      | Some (File bytes) \<Rightarrow>
          (case loads bytes of
             None \<Rightarrow> None
           | Some result \<Rightarrow>
               (case config_field result ''start_date'' of
                  None \<Rightarrow> None
                | Some s \<Rightarrow>
                    if s = JStr (start_date bt) then
                      (case config_field result ''end_date'' of
                         None \<Rightarrow> None
                       | Some e \<Rightarrow> if e = JStr (end_date bt) then Some result else None)
                    else None)))"

text \<open>The persisted record of a strategy: what the result file parses to, if it does.\<close>

definition stored_result ::
  "(string \<Rightarrow> 'f json option) \<Rightarrow> results_dir \<Rightarrow> string \<Rightarrow> 'f json option" where
  "stored_result loads rdir strategy_name =
     (case get_strategy_result_file rdir strategy_name of
        Some (File bytes) \<Rightarrow> loads bytes
      | _ \<Rightarrow> None)"

text \<open>Both window bounds of the stored configuration equal the active ones.\<close>

definition window_matches :: "backtester \<Rightarrow> 'f json \<Rightarrow> bool" where
  "window_matches bt result \<longleftrightarrow>
     config_field result ''start_date'' = Some (JStr (start_date bt)) \<and>
     config_field result ''end_date'' = Some (JStr (end_date bt))"

section \<open>Python strings\<close>

text \<open>
  The methods of \<^verbatim>\<open>str\<close> the code calls, on the UTF-8 bytes of the string. Search and
  split on a separator that is valid UTF-8 agree with Python's on code points.
\<close>

definition newline :: string where
  "newline = [CHR 0x0A]"

text \<open>
  The characters \<^verbatim>\<open>strip()\<close> and \<^verbatim>\<open>split()\<close> take for whitespace, each as its UTF-8 bytes:
  U+0009 to U+000D, U+001C to U+0020, U+0085, U+00A0, U+1680, U+2000 to U+200A, U+2028,
  U+2029, U+202F, U+205F and U+3000.
\<close>

definition whitespace :: "string list" where
  "whitespace =
     [[CHR 0x09], [CHR 0x0A], [CHR 0x0B], [CHR 0x0C], [CHR 0x0D],
      [CHR 0x1C], [CHR 0x1D], [CHR 0x1E], [CHR 0x1F], [CHR 0x20],
      [CHR 0xC2, CHR 0x85], [CHR 0xC2, CHR 0xA0], [CHR 0xE1, CHR 0x9A, CHR 0x80],
      [CHR 0xE2, CHR 0x80, CHR 0x80], [CHR 0xE2, CHR 0x80, CHR 0x81],
      [CHR 0xE2, CHR 0x80, CHR 0x82], [CHR 0xE2, CHR 0x80, CHR 0x83],
      [CHR 0xE2, CHR 0x80, CHR 0x84], [CHR 0xE2, CHR 0x80, CHR 0x85],
      [CHR 0xE2, CHR 0x80, CHR 0x86], [CHR 0xE2, CHR 0x80, CHR 0x87],
      [CHR 0xE2, CHR 0x80, CHR 0x88], [CHR 0xE2, CHR 0x80, CHR 0x89],
      [CHR 0xE2, CHR 0x80, CHR 0x8A], [CHR 0xE2, CHR 0x80, CHR 0xA8],
      [CHR 0xE2, CHR 0x80, CHR 0xA9], [CHR 0xE2, CHR 0x80, CHR 0xAF],
      [CHR 0xE2, CHR 0x81, CHR 0x9F], [CHR 0xE3, CHR 0x80, CHR 0x80]]"

text \<open>
  The number of bytes of the whitespace character \<open>s\<close> starts with, 0 when it starts with
  none; \<open>ws\<close> is the table of the characters.
\<close>

definition space_width :: "string list \<Rightarrow> string \<Rightarrow> nat" where
  "space_width ws s = (case find (\<lambda>w. prefix w s) ws of None \<Rightarrow> 0 | Some w \<Rightarrow> length w)"

text \<open>
  \<^verbatim>\<open>s.lstrip()\<close>: the whitespace characters at the start are dropped; \<open>k\<close> counts the
  bytes of a found character still to skip. \<^verbatim>\<open>s.strip()\<close> drops them at both ends: at the
  end the bytes are read backwards.
\<close>

fun drop_spaces :: "string list \<Rightarrow> nat \<Rightarrow> string \<Rightarrow> string" where
  "drop_spaces ws k [] = []"
| "drop_spaces ws (Suc k) (c # cs) = drop_spaces ws k cs"
| "drop_spaces ws 0 (c # cs) =
     (case space_width ws (c # cs) of
        0 \<Rightarrow> c # cs
      | Suc j \<Rightarrow> drop_spaces ws j cs)"

definition str_strip :: "string \<Rightarrow> string" where
  "str_strip s =
     rev (drop_spaces (map rev whitespace) 0 (rev (drop_spaces whitespace 0 s)))"

text \<open>
  \<^verbatim>\<open>s.split(sep)\<close> for a non-empty separator: the pieces between the occurrences of \<open>sep\<close>,
  found from the left without overlap. \<open>k\<close> counts the bytes of a found separator still to
  skip, \<open>cur\<close> is the current piece, reversed.
\<close>

fun split_aux :: "string \<Rightarrow> nat \<Rightarrow> string \<Rightarrow> string \<Rightarrow> string list" where
  "split_aux sep k cur [] = [rev cur]"
| "split_aux sep (Suc k) cur (c # cs) = split_aux sep k cur cs"
| "split_aux sep 0 cur (c # cs) =
     (if prefix sep (c # cs) then rev cur # split_aux sep (length sep - 1) [] cs
      else split_aux sep 0 (c # cur) cs)"

definition str_split :: "string \<Rightarrow> string \<Rightarrow> string list" where
  "str_split s sep = split_aux sep 0 [] s"

text \<open>
  \<^verbatim>\<open>s.split()\<close>: the maximal runs of non-whitespace. \<open>k\<close> counts the bytes of a found
  whitespace character still to skip, \<open>cur\<close> is the current run, reversed.
\<close>

fun split_ws_aux :: "nat \<Rightarrow> string \<Rightarrow> string \<Rightarrow> string list" where
  "split_ws_aux k cur [] = (if cur = [] then [] else [rev cur])"
| "split_ws_aux (Suc k) cur (c # cs) = split_ws_aux k cur cs"
| "split_ws_aux 0 cur (c # cs) =
     (case space_width whitespace (c # cs) of
        0 \<Rightarrow> split_ws_aux 0 (c # cur) cs
      | Suc j \<Rightarrow>
          (if cur = [] then split_ws_aux j [] cs else rev cur # split_ws_aux j [] cs))"

definition str_split_ws :: "string \<Rightarrow> string list" where
  "str_split_ws s = split_ws_aux 0 [] s"

text \<open>\<^verbatim>\<open>sub in s\<close>, \<^verbatim>\<open>s.startswith(p)\<close> and \<^verbatim>\<open>s.endswith(p)\<close>.\<close>

definition str_contains :: "string \<Rightarrow> string \<Rightarrow> bool" where
  "str_contains sub s \<longleftrightarrow> sublist sub s"

definition startswith :: "string \<Rightarrow> string \<Rightarrow> bool" where
  "startswith s p \<longleftrightarrow> prefix p s"

definition endswith :: "string \<Rightarrow> string \<Rightarrow> bool" where
  "endswith s p \<longleftrightarrow> suffix p s"

text \<open>The exceptions that leave a modelled function.\<close>

datatype py_error = AttributeError | TypeError | NotADirectoryError

section \<open>Scheduler: the strategies to process\<close>

text \<open>
  The in-memory state of the backtester: \<^verbatim>\<open>self.results\<close>, a dict from identifier to
  result (an association list on hashable JSON keys), and \<^verbatim>\<open>self.failed_strategies\<close>, a list
  of failure records.
\<close>

definition hashable :: "'f json \<Rightarrow> bool" where
  "hashable j = (case j of JArr _ \<Rightarrow> False | JObj _ \<Rightarrow> False | _ \<Rightarrow> True)"

text \<open>
  \<^verbatim>\<open>{fs.get('strategy') for fs in self.failed_strategies}\<close>: the elements of the set, in the
  order they are computed. A record that is not a dict raises AttributeError, an identifier
  that is a list or a dict raises TypeError (unhashable).
\<close>

fun failed_ids :: "'f json list \<Rightarrow> py_error + 'f json list" where
  "failed_ids [] = Inr []"
| "failed_ids (fs # rest) =
     (case py_get fs ''strategy'' JNull of
        None \<Rightarrow> Inl AttributeError
      | Some v \<Rightarrow>
          if hashable v then
            (case failed_ids rest of Inl e \<Rightarrow> Inl e | Inr vs \<Rightarrow> Inr (v # vs))
          else Inl TypeError)"

text \<open>
  \<^verbatim>\<open>get_strategies_to_process\<close>. An identifier of \<open>all_strategies\<close>, a str, is in a set of JSON
  values when the set holds the equal JSON string.
\<close>

definition get_strategies_to_process ::
  "('f json \<times> 'f json) list \<Rightarrow> 'f json list \<Rightarrow> string list \<Rightarrow> bool \<Rightarrow> py_error + string list" where
  "get_strategies_to_process results failed_strategies all_strategies include_failed =
     (case failed_ids failed_strategies of
        Inl e \<Rightarrow> Inl e
      | Inr fl \<Rightarrow>
          (let already_completed = set (map fst results);
               already_failed = set fl;
               pending_strategies =
                 filter (\<lambda>s. JStr s \<notin> already_completed \<and> JStr s \<notin> already_failed) all_strategies
           in Inr (if include_failed
                   then pending_strategies @ filter (\<lambda>s. JStr s \<in> already_failed) all_strategies
                   else pending_strategies)))"

section \<open>WorkDiscoverer\<close>

text \<open>
  What \<^verbatim>\<open>subprocess.run\<close> gives: a completed process with its return code, stdout and
  stderr, a \<^verbatim>\<open>TimeoutExpired\<close>, or another exception with its text.
\<close>

datatype proc_result = Completed int string string | TimeoutExpired | ProcException string

text \<open>
  The native listing: one identifier per line of the tool's output, without the empty lines
  and the lines that start with \<^verbatim>\<open>2025-\<close>.
\<close>

definition listed_strategies :: "string \<Rightarrow> string list" where
  "listed_strategies stdout =
     filter (\<lambda>strategy. strategy \<noteq> [] \<and> \<not> startswith strategy ''2025-'')
       (map str_strip (str_split (str_strip stdout) newline))"

definition is_dir :: "node \<Rightarrow> bool" where
  "is_dir n = (case n of Dir _ \<Rightarrow> True | File _ \<Rightarrow> False)"

text \<open>
  \<^verbatim>\<open>discover_strategies_from_filesystem\<close> on \<^verbatim>\<open>user_data/strategies\<close> (\<open>None\<close>: the path does
  not exist; \<^verbatim>\<open>iterdir\<close> of a regular file raises).
\<close>

definition discover_strategies_from_filesystem :: "node option \<Rightarrow> py_error + string list" where
  "discover_strategies_from_filesystem strategies_dir =
     (case strategies_dir of
        None \<Rightarrow> Inr []
      | Some (File _) \<Rightarrow> Inl NotADirectoryError
      | Some (Dir entries) \<Rightarrow>
          Inr (sort (map fst (filter
            (\<lambda>(name, n). is_dir n \<and> \<not> startswith name ''.'' \<and> child (Some n) (name @ ''.py'') \<noteq> None)
            entries))))"

text \<open>
  \<^verbatim>\<open>Path(file_path).parent.name\<close> on a POSIX path: empty components and \<^verbatim>\<open>.\<close> are dropped, the
  name of the parent is the last component but one, or empty when there is none.
\<close>

definition path_parts :: "string \<Rightarrow> string list" where
  "path_parts p = filter (\<lambda>c. c \<noteq> [] \<and> c \<noteq> ''.'') (str_split p ''/'')"

definition parent_name :: "string \<Rightarrow> string" where
  "parent_name p =
     (let ps = path_parts p in if 2 \<le> length ps then ps ! (length ps - 2) else [])"

definition first_field :: "string \<Rightarrow> string" where
  "first_field line = (case str_split line '':'' of [] \<Rightarrow> [] | f # _ \<Rightarrow> f)"

text \<open>The loop of \<^verbatim>\<open>get_compatible_strategies\<close> over the lines of the content search.\<close>

fun collect_compatible :: "string list \<Rightarrow> string list \<Rightarrow> string list" where
  "collect_compatible [] compatible_strategies = compatible_strategies"
| "collect_compatible (line # rest) compatible_strategies =
     (if str_strip line \<noteq> [] \<and> str_contains ''.py:'' line then
        (let file_path = first_field line in
         if endswith file_path ''.py'' then
           (let strategy_name = parent_name file_path in
            if strategy_name \<notin> set compatible_strategies
            then collect_compatible rest (compatible_strategies @ [strategy_name])
            else collect_compatible rest compatible_strategies)
         else collect_compatible rest compatible_strategies)
      else collect_compatible rest compatible_strategies)"

text \<open>\<^verbatim>\<open>get_compatible_strategies\<close>, given what the content search returned.\<close>

definition get_compatible_strategies :: "proc_result \<Rightarrow> string list" where
  "get_compatible_strategies grep =
     (case grep of
        Completed returncode stdout stderr \<Rightarrow>
          if returncode = 0 then sort (collect_compatible (str_split stdout newline) [])
          else sort []
      | _ \<Rightarrow> [])"

text \<open>
  \<^verbatim>\<open>discover_strategies\<close>, given what the listing command and the content search returned and
  the strategies directory. An exception of the filesystem scan raised inside the
  \<^verbatim>\<open>try\<close> is caught, and the scan that the handler runs raises it again.
\<close>

definition discover_strategies ::
  "proc_result \<Rightarrow> proc_result \<Rightarrow> node option \<Rightarrow> bool \<Rightarrow> py_error + string list" where
  "discover_strategies listing grep strategies_dir compatible_only =
     (if compatible_only then Inr (get_compatible_strategies grep)
      else
        (case listing of
           Completed returncode stdout stderr \<Rightarrow>
             if returncode = 0 then Inr (sort (listed_strategies stdout))
             else discover_strategies_from_filesystem strategies_dir
         | _ \<Rightarrow> discover_strategies_from_filesystem strategies_dir))"

text \<open>
  The output of the native listing that \<^verbatim>\<open>discover_strategies\<close> returns from: the listing
  command completed with return code 0 and \<open>compatible_only\<close> is off.
\<close>

definition native_listing :: "proc_result \<Rightarrow> bool \<Rightarrow> string option" where
  "native_listing listing compatible_only =
     (if compatible_only then None
      else (case listing of
              Completed returncode stdout stderr \<Rightarrow> if returncode = 0 then Some stdout else None
            | _ \<Rightarrow> None))"

text \<open>The names of the entries of a directory are pairwise different.\<close>

definition distinct_names :: "node option \<Rightarrow> bool" where
  "distinct_names p = (case p of Some (Dir entries) \<Rightarrow> distinct (map fst entries) | _ \<Rightarrow> True)"

section \<open>The environment\<close>

text \<open>
  What the code takes from the Python library and from outside the process:
  \<^item> \<open>json_load\<close>, \<open>json_dump\<close>: \<^verbatim>\<open>json.load\<close> on the bytes of a file (\<open>None\<close>: it raises) and the
    bytes \<^verbatim>\<open>json.dump\<close> writes;
  \<^item> \<open>py_float\<close>, \<open>py_int\<close>: \<^verbatim>\<open>float(s)\<close> and \<^verbatim>\<open>int(s)\<close> on a str (\<open>None\<close>: ValueError);
    \<open>float_zero\<close> is \<^verbatim>\<open>0.0\<close> and \<open>float_true\<close> the truth value of a float;
  \<^item> \<open>run_backtesting\<close>: the external backtesting command on a command line and a results
    directory: what \<^verbatim>\<open>subprocess.run\<close> gives, and the results directory the tool leaves;
  \<^item> \<open>detect_timeframe\<close>: the timeframe \<^verbatim>\<open>detect_strategy_timeframe\<close> finds for a strategy
    (the method returns a str on every path; its pattern search is not modelled);
  \<^item> \<open>now_isoformat\<close>, \<open>elapsed_time\<close>, \<open>freqtrade_version\<close>: the clock readings and the
    version string of the call;
  \<^item> \<open>os_error_text\<close>: \<^verbatim>\<open>str(e)\<close> of the OSError raised on a path;
  \<^item> \<open>unzip\<close>: the members of a ZIP archive, by name (\<open>None\<close>: the bytes are no archive);
  \<^item> \<open>extract_metrics\<close>: the metric fields \<^verbatim>\<open>parse_strategy_json_data\<close> computes from the
    loaded backtest data, floating point arithmetic included (\<open>None\<close>: it raises or does
    not recognise the structure).
\<close>

record 'f env =
  json_load :: "string \<Rightarrow> 'f json option"
  json_dump :: "'f json \<Rightarrow> string"
  py_float :: "string \<Rightarrow> 'f option"
  py_int :: "string \<Rightarrow> int option"
  float_zero :: 'f
  float_true :: "'f \<Rightarrow> bool"
  run_backtesting :: "string list \<Rightarrow> node option \<Rightarrow> proc_result \<times> node option"
  detect_timeframe :: "string \<Rightarrow> string"
  now_isoformat :: string
  elapsed_time :: 'f
  freqtrade_version :: string
  os_error_text :: "string \<Rightarrow> string"
  unzip :: "string \<Rightarrow> (string \<times> string) list option"
  extract_metrics :: "'f json \<Rightarrow> (string \<times> 'f json) list option"

section \<open>OutputParser\<close>

text \<open>The metrics dict of \<^verbatim>\<open>parse_backtest_output\<close>, with its fixed keys.\<close>

record 'f metrics =
  strategy :: string
  total_return :: 'f
  total_trades :: int
  winning_trades :: int
  losing_trades :: int
  win_rate :: 'f
  profit_factor :: 'f
  sharpe_ratio :: 'f
  max_drawdown :: 'f
  avg_profit :: 'f
  total_profit_abs :: 'f
  total_profit_percent :: 'f
  avg_duration :: string
  best_pair :: string
  worst_pair :: string
  backtest_start :: string
  backtest_end :: string
  market_change :: 'f

definition default_metrics :: "'f env \<Rightarrow> string \<Rightarrow> 'f metrics" where
  "default_metrics E strategy_name =
     \<lparr>strategy = strategy_name, total_return = float_zero E, total_trades = 0,
      winning_trades = 0, losing_trades = 0, win_rate = float_zero E,
      profit_factor = float_zero E, sharpe_ratio = float_zero E, max_drawdown = float_zero E,
      avg_profit = float_zero E, total_profit_abs = float_zero E,
      total_profit_percent = float_zero E, avg_duration = [], best_pair = [],
      worst_pair = [], backtest_start = [], backtest_end = [], market_change = float_zero E\<rparr>"

text \<open>The box-drawing character U+2502 that separates the cells of a table row.\<close>

definition box :: string where
  "box = [CHR 0xE2, CHR 0x94, CHR 0x82]"

text \<open>\<^verbatim>\<open>xs[i]\<close> for a literal index: \<open>None\<close> is IndexError.\<close>

definition item :: "'a list \<Rightarrow> nat \<Rightarrow> 'a option" where
  "item xs i = (if i < length xs then Some (xs ! i) else None)"

text \<open>\<^verbatim>\<open>s.replace(old, new)\<close> for a non-empty \<open>old\<close>.\<close>

definition str_replace :: "string \<Rightarrow> string \<Rightarrow> string \<Rightarrow> string" where
  "str_replace s old new =
     (case str_split s old of [] \<Rightarrow> [] | p # ps \<Rightarrow> p @ concat (map (\<lambda>q. new @ q) ps))"

text \<open>
  \<^verbatim>\<open>len(parts) >= 4 and label in parts[1]\<close>, the test of every branch of the detail table:
  \<open>None\<close> is the IndexError of \<^verbatim>\<open>parts[1]\<close>, which no \<^verbatim>\<open>try\<close> encloses.
\<close>

definition labelled :: "string list \<Rightarrow> string \<Rightarrow> bool option" where
  "labelled parts label =
     (if 4 \<le> length parts then map_option (str_contains label) (item parts 1)
      else Some False)"

text \<open>
  The bodies of the branches. An exception inside a \<^verbatim>\<open>try\<close> leaves the metrics as they
  are: \<^verbatim>\<open>except: pass\<close>.
\<close>

definition percent_cell :: "'f env \<Rightarrow> string list \<Rightarrow> 'f option" where
  "percent_cell E parts =
     (case item parts 2 of
        None \<Rightarrow> None
      | Some cell \<Rightarrow> if str_contains ''%'' cell then py_float E (str_replace cell ''%'' []) else None)"

definition usdt_cell :: "'f env \<Rightarrow> string list \<Rightarrow> 'f option" where
  "usdt_cell E parts =
     (case item parts 2 of
        None \<Rightarrow> None
      | Some cell \<Rightarrow>
          if str_contains ''USDT'' cell then py_float E (str_strip (str_replace cell ''USDT'' []))
          else None)"

definition float_cell :: "'f env \<Rightarrow> string list \<Rightarrow> 'f option" where
  "float_cell E parts = (case item parts 2 of None \<Rightarrow> None | Some cell \<Rightarrow> py_float E cell)"

text \<open>
  The \<^verbatim>\<open>if\<close>/\<^verbatim>\<open>elif\<close> chain over the rows of the detail table. The result is \<open>None\<close> when
  an exception leaves the function.
\<close>

definition detail_row :: "'f env \<Rightarrow> string list \<Rightarrow> 'f metrics \<Rightarrow> 'f metrics option" where
  "detail_row E parts m =
     (case labelled parts ''Total profit %'' of
        None \<Rightarrow> None
      | Some True \<Rightarrow>
          Some (case percent_cell E parts of
                  Some v \<Rightarrow> m\<lparr>total_profit_percent := v\<rparr> | None \<Rightarrow> m)
      | Some False \<Rightarrow>
     (case labelled parts ''Absolute profit'' of
        None \<Rightarrow> None
      | Some True \<Rightarrow>
          Some (case usdt_cell E parts of
                  Some v \<Rightarrow> m\<lparr>total_profit_abs := v\<rparr> | None \<Rightarrow> m)
      | Some False \<Rightarrow>
     (case labelled parts ''Sharpe'' of
        None \<Rightarrow> None
      | Some True \<Rightarrow>
          Some (case float_cell E parts of
                  Some v \<Rightarrow> m\<lparr>sharpe_ratio := v\<rparr> | None \<Rightarrow> m)
      | Some False \<Rightarrow>
     (case labelled parts ''Profit factor'' of
        None \<Rightarrow> None
      | Some True \<Rightarrow>
          Some (case float_cell E parts of
                  Some v \<Rightarrow> m\<lparr>profit_factor := v\<rparr> | None \<Rightarrow> m)
      | Some False \<Rightarrow>
     (case labelled parts ''Best Pair'' of
        None \<Rightarrow> None
      | Some True \<Rightarrow>
          (case item parts 2 of None \<Rightarrow> None | Some cell \<Rightarrow> Some (m\<lparr>best_pair := cell\<rparr>))
      | Some False \<Rightarrow>
     (case labelled parts ''Worst Pair'' of
        None \<Rightarrow> None
      | Some True \<Rightarrow>
          (case item parts 2 of None \<Rightarrow> None | Some cell \<Rightarrow> Some (m\<lparr>worst_pair := cell\<rparr>))
      | Some False \<Rightarrow>
     (case (case labelled parts ''Max % of account underwater'' of
              None \<Rightarrow> None
            | Some True \<Rightarrow> Some True
            | Some False \<Rightarrow> labelled parts ''Absolute Drawdown (Account)'') of
        None \<Rightarrow> None
      | Some True \<Rightarrow>
          Some (case percent_cell E parts of
                  Some v \<Rightarrow> m\<lparr>max_drawdown := v\<rparr> | None \<Rightarrow> m)
      | Some False \<Rightarrow>
     (case labelled parts ''Market change'' of
        None \<Rightarrow> None
      | Some True \<Rightarrow>
          Some (case percent_cell E parts of
                  Some v \<Rightarrow> m\<lparr>market_change := v\<rparr> | None \<Rightarrow> m)
      | Some False \<Rightarrow> Some m))))))))"

text \<open>
  The win/draw/loss cell of the summary row, \<^verbatim>\<open>"352  2  303  53.6"\<close>: three assignments in
  a row; the first that raises ends the \<^verbatim>\<open>try\<close> block and keeps the earlier ones.
\<close>

definition win_stats_cell :: "'f env \<Rightarrow> string \<Rightarrow> 'f metrics \<Rightarrow> 'f metrics" where
  "win_stats_cell E cell m =
     (let win_stats = str_strip cell in
      if win_stats = [] then m
      else
        (let stats_parts = str_split_ws win_stats in
         if 4 \<le> length stats_parts then
           (case py_int E (stats_parts ! 0) of
              None \<Rightarrow> m
            | Some w \<Rightarrow>
                (let m1 = m\<lparr>winning_trades := w\<rparr> in
                 case py_int E (stats_parts ! 2) of
                   None \<Rightarrow> m1
                 | Some l \<Rightarrow>
                     (let m2 = m1\<lparr>losing_trades := l\<rparr> in
                      case py_float E (stats_parts ! 3) of
                        None \<Rightarrow> m2
                      | Some r \<Rightarrow> m2\<lparr>win_rate := r\<rparr>)))
         else m))"

text \<open>
  The summary row of the strategy, when it has at least nine cells: one \<^verbatim>\<open>try\<close> block
  encloses the assignments of all its cells, in this order.
\<close>

definition summary_row :: "'f env \<Rightarrow> string list \<Rightarrow> 'f metrics \<Rightarrow> 'f metrics" where
  "summary_row E parts m =
     (if 9 \<le> length parts then
        (case py_int E (parts ! 2) of
           None \<Rightarrow> m
         | Some trades \<Rightarrow>
             (let m1 = m\<lparr>total_trades := trades\<rparr> in
              case py_float E (parts ! 3) of
                None \<Rightarrow> m1
              | Some avg \<Rightarrow>
                  (let m2 = m1\<lparr>avg_profit := avg\<rparr> in
                   case py_float E (parts ! 4) of
                     None \<Rightarrow> m2
                   | Some pabs \<Rightarrow>
                       (let m3 = m2\<lparr>total_profit_abs := pabs\<rparr> in
                        case py_float E (parts ! 5) of
                          None \<Rightarrow> m3
                        | Some pct \<Rightarrow>
                            (let m4 = m3\<lparr>total_profit_percent := pct\<rparr>;
                                 m5 = m4\<lparr>avg_duration := parts ! 6\<rparr>
                             in win_stats_cell E (parts ! 7) m5)))))
      else m)"

text \<open>
  The date range line, \<^verbatim>\<open>"Backtested 2024-01-01 00:00:00 -> 2024-03-31 00:00:00"\<close>. The tuple
  assignment needs exactly two pieces; every exception is passed over.
\<close>

definition backtested_row :: "string \<Rightarrow> 'f metrics \<Rightarrow> 'f metrics" where
  "backtested_row line m =
     (if str_contains ''Backtested'' line \<and> str_contains ''->'' line then
        (case item (str_split line ''Backtested'') 1 of
           None \<Rightarrow> m
         | Some rest \<Rightarrow>
             (case item (str_split rest ''|'') 0 of
                None \<Rightarrow> m
              | Some piece \<Rightarrow>
                  (let date_part = str_strip piece in
                   if str_contains ''->'' date_part then
                     (case str_split date_part ''->'' of
                        [start, end] \<Rightarrow>
                          m\<lparr>backtest_start := str_strip start, backtest_end := str_strip end\<rparr>
                      | _ \<Rightarrow> m)
                   else m)))
      else m)"

text \<open>The body of the loop over the lines of the output.\<close>

definition cells :: "string \<Rightarrow> string list" where
  "cells line = map str_strip (str_split line box)"

definition parse_line :: "'f env \<Rightarrow> string \<Rightarrow> string \<Rightarrow> 'f metrics \<Rightarrow> 'f metrics option" where
  "parse_line E strategy_name raw m =
     (let line = str_strip raw in
      case (if str_contains box line then detail_row E (cells line) m else Some m) of
        None \<Rightarrow> None
      | Some m1 \<Rightarrow>
          (let m2 = (if str_contains strategy_name line \<and> str_contains box line
                     then summary_row E (cells line) m1 else m1)
           in Some (backtested_row line m2)))"

fun parse_lines :: "'f env \<Rightarrow> string \<Rightarrow> string list \<Rightarrow> 'f metrics \<Rightarrow> 'f metrics option" where
  "parse_lines E strategy_name [] m = Some m"
| "parse_lines E strategy_name (line # rest) m =
     (case parse_line E strategy_name line m of
        None \<Rightarrow> None
      | Some m' \<Rightarrow> parse_lines E strategy_name rest m')"

text \<open>\<^verbatim>\<open>parse_backtest_output\<close>; \<open>None\<close> when an exception leaves it.\<close>

definition parse_backtest_output :: "'f env \<Rightarrow> string \<Rightarrow> string \<Rightarrow> 'f metrics option" where
  "parse_backtest_output E output strategy_name =
     parse_lines E strategy_name (str_split output newline) (default_metrics E strategy_name)"


section \<open>ResultStore: writing and cleaning up\<close>

text \<open>
  Operations on a directory \<open>p\<close> of the tree. \<open>None\<close> as a result is the OSError Python
  raises.
  \<^item> \<open>write_file\<close>: \<^verbatim>\<open>open(p / name, 'w')\<close> and writing the bytes; it raises when \<open>p\<close> is not a
    directory or \<open>name\<close> is a directory.
  \<^item> \<open>mkdir_exist_ok\<close>: \<^verbatim>\<open>(p / name).mkdir(exist_ok=True)\<close>; it raises when \<open>p\<close> is not a
    directory or \<open>name\<close> is a regular file.
\<close>

definition write_file :: "node option \<Rightarrow> string \<Rightarrow> string \<Rightarrow> node option" where
  "write_file p name bytes =
     (case p of
        Some (Dir es) \<Rightarrow>
          (case map_of es name of
             Some (Dir _) \<Rightarrow> None
           | _ \<Rightarrow> Some (Dir (AList.update name (File bytes) es)))
      | _ \<Rightarrow> None)"

definition mkdir_exist_ok :: "node option \<Rightarrow> string \<Rightarrow> node option" where
  "mkdir_exist_ok p name =
     (case p of
        Some (Dir es) \<Rightarrow>
          (case map_of es name of
             None \<Rightarrow> Some (Dir (es @ [(name, Dir [])]))
           | Some (Dir _) \<Rightarrow> Some (Dir es)
           | Some (File _) \<Rightarrow> None)
      | _ \<Rightarrow> None)"

text \<open>The directory \<open>p\<close> with its entry \<open>name\<close> replaced, and with it removed.\<close>

definition set_child :: "node option \<Rightarrow> string \<Rightarrow> node \<Rightarrow> node option" where
  "set_child p name n =
     (case p of Some (Dir es) \<Rightarrow> Some (Dir (AList.update name n es)) | _ \<Rightarrow> p)"

definition remove_child :: "node option \<Rightarrow> string \<Rightarrow> node option" where
  "remove_child p name =
     (case p of Some (Dir es) \<Rightarrow> Some (Dir (AList.delete name es)) | _ \<Rightarrow> p)"

text \<open>
  \<^verbatim>\<open>save_strategy_result\<close> and the write of the failure record, the same three times in
  \<^verbatim>\<open>run_backtest_worker\<close>: the exception of a failed write is caught and logged, and the
  results directory stays as it is.
\<close>

definition save_strategy_result :: "'f env \<Rightarrow> results_dir \<Rightarrow> string \<Rightarrow> 'f json \<Rightarrow> results_dir" where
  "save_strategy_result E rdir strategy_name result =
     (case write_file (individual_results_dir rdir) (strategy_name @ ''_result.json'')
             (json_dump E result) of
        None \<Rightarrow> rdir
      | Some d \<Rightarrow> set_child rdir ''individual_results'' d)"

definition save_failed_result :: "'f env \<Rightarrow> results_dir \<Rightarrow> string \<Rightarrow> 'f json \<Rightarrow> results_dir" where
  "save_failed_result E rdir strategy_name failed_result =
     (case write_file (individual_results_dir rdir) (strategy_name @ ''_failed.json'')
             (json_dump E failed_result) of
        None \<Rightarrow> rdir
      | Some d \<Rightarrow> set_child rdir ''individual_results'' d)"

text \<open>
  \<^verbatim>\<open>f.suffix == '.json'\<close>: the name ends with \<^verbatim>\<open>.json\<close> and has a stem before it.
\<close>

definition has_json_suffix :: "string \<Rightarrow> bool" where
  "has_json_suffix name \<longleftrightarrow> endswith name ''.json'' \<and> 5 < length name"

text \<open>
  A complete backtest result: a regular file with the suffix \<^verbatim>\<open>.json\<close>, \<^verbatim>\<open>backtest\<close> in its
  name and more than 1000 bytes.
\<close>

definition complete_result :: "string \<times> node \<Rightarrow> bool" where
  "complete_result f =
     (case f of
        (name, File bytes) \<Rightarrow>
          has_json_suffix name \<and> str_contains ''backtest'' name \<and> 1000 < length bytes
      | (name, Dir _) \<Rightarrow> False)"

text \<open>
  \<^verbatim>\<open>cleanup_failed_strategy_directory\<close> on \<^verbatim>\<open>results_dir / strategy_name\<close>. A path that does
  not exist is left alone; \<^verbatim>\<open>iterdir\<close> of a regular file raises, and the exception is caught.
\<close>

definition cleanup_failed_strategy_directory :: "results_dir \<Rightarrow> string \<Rightarrow> results_dir" where
  "cleanup_failed_strategy_directory rdir strategy_name =
     (case child rdir strategy_name of
        None \<Rightarrow> rdir
      | Some (File _) \<Rightarrow> rdir
      | Some (Dir files_in_dir) \<Rightarrow>
          if files_in_dir = [] then remove_child rdir strategy_name
          else
            (let has_complete_results = list_ex complete_result files_in_dir in
             if \<not> has_complete_results then remove_child rdir strategy_name else rdir))"

section \<open>UnitRunner\<close>

text \<open>The truth value of a JSON value in a condition.\<close>

fun truthy :: "'f env \<Rightarrow> 'f json \<Rightarrow> bool" where
  "truthy E JNull = False"
| "truthy E (JBool b) = b"
| "truthy E (JInt i) = (i \<noteq> 0)"
| "truthy E (JFloat x) = float_true E x"
| "truthy E (JStr s) = (s \<noteq> [])"
| "truthy E (JArr xs) = (xs \<noteq> [])"
| "truthy E (JObj kv) = (kv \<noteq> [])"

text \<open>\<^verbatim>\<open>str(n)\<close> for a natural number, and \<^verbatim>\<open>sep.join(xs)\<close>.\<close>

function decimal :: "nat \<Rightarrow> string" where
  "decimal n =
     (if n < 10 then [''0123456789'' ! n]
      else decimal (n div 10) @ [''0123456789'' ! (n mod 10)])"
  by pat_completeness auto
termination
  by (relation "measure id") auto

declare decimal.simps [simp del]

fun str_join :: "string \<Rightarrow> string list \<Rightarrow> string" where
  "str_join sep [] = []"
| "str_join sep [x] = x"
| "str_join sep (x # y # ys) = x @ sep @ str_join sep (y # ys)"

text \<open>The world a worker runs in: the results directory and the external commands run.\<close>

record world =
  fs :: results_dir
  calls :: "string list list"

definition results_path :: "string \<Rightarrow> string" where
  "results_path strategy_name = ''user_data/backtest_results/'' @ strategy_name"

definition backtest_cmd :: "backtester \<Rightarrow> string \<Rightarrow> string \<Rightarrow> string list" where
  "backtest_cmd bt detected_timeframe strategy_name =
     [''freqtrade'', ''backtesting'',
      ''--config'', config_path bt,
      ''--strategy'', strategy_name,
      ''--timerange'', start_date bt @ ''-'' @ end_date bt,
      ''--timeframe'', detected_timeframe,
      ''--export'', ''trades'',
      ''--export-filename'',
        results_path strategy_name @ ''/'' @ strategy_name @ ''_backtest.json'']"

text \<open>The metrics as the dict that is merged with the metadata.\<close>

definition metrics_items :: "'f metrics \<Rightarrow> (string \<times> 'f json) list" where
  "metrics_items m =
     [(''strategy'', JStr (strategy m)),
      (''total_return'', JFloat (total_return m)),
      (''total_trades'', JInt (total_trades m)),
      (''winning_trades'', JInt (winning_trades m)),
      (''losing_trades'', JInt (losing_trades m)),
      (''win_rate'', JFloat (win_rate m)),
      (''profit_factor'', JFloat (profit_factor m)),
      (''sharpe_ratio'', JFloat (sharpe_ratio m)),
      (''max_drawdown'', JFloat (max_drawdown m)),
      (''avg_profit'', JFloat (avg_profit m)),
      (''total_profit_abs'', JFloat (total_profit_abs m)),
      (''total_profit_percent'', JFloat (total_profit_percent m)),
      (''avg_duration'', JStr (avg_duration m)),
      (''best_pair'', JStr (best_pair m)),
      (''worst_pair'', JStr (worst_pair m)),
      (''backtest_start'', JStr (backtest_start m)),
      (''backtest_end'', JStr (backtest_end m)),
      (''market_change'', JFloat (market_change m))]"

definition metadata_items ::
  "'f env \<Rightarrow> backtester \<Rightarrow> string \<Rightarrow> string list \<Rightarrow> (string \<times> 'f json) list" where
  "metadata_items E bt detected_timeframe cmd =
     [(''execution_time'', JFloat (elapsed_time E)),
      (''backtest_timestamp'', JStr (now_isoformat E)),
      (''detected_timeframe'', JStr detected_timeframe),
      (''backtest_config'', JObj
         [(''start_date'', JStr (start_date bt)),
          (''end_date'', JStr (end_date bt)),
          (''config_path'', JStr (config_path bt)),
          (''timeframe'', JStr detected_timeframe)]),
      (''freqtrade_version'', JStr (freqtrade_version E)),
      (''command_executed'', JStr (str_join '' '' cmd))]"

text \<open>The failure records of the three failure paths.\<close>

definition exit_failure ::
  "'f env \<Rightarrow> backtester \<Rightarrow> string \<Rightarrow> string \<Rightarrow> string \<Rightarrow> string \<Rightarrow> 'f json" where
  "exit_failure E bt strategy_name detected_timeframe stdout stderr = JObj
     [(''strategy'', JStr strategy_name),
      (''error'', JStr stderr),
      (''stdout'', JStr stdout),
      (''detected_timeframe'', JStr detected_timeframe),
      (''failed_timestamp'', JStr (now_isoformat E)),
      (''backtest_config'', JObj
         [(''start_date'', JStr (start_date bt)),
          (''end_date'', JStr (end_date bt)),
          (''config_path'', JStr (config_path bt)),
          (''timeframe'', JStr detected_timeframe)])]"

definition raised_failure :: "'f env \<Rightarrow> backtester \<Rightarrow> string \<Rightarrow> string \<Rightarrow> 'f json" where
  "raised_failure E bt strategy_name error = JObj
     [(''strategy'', JStr strategy_name),
      (''error'', JStr error),
      (''stdout'', JStr []),
      (''failed_timestamp'', JStr (now_isoformat E)),
      (''backtest_config'', JObj
         [(''start_date'', JStr (start_date bt)),
          (''end_date'', JStr (end_date bt)),
          (''config_path'', JStr (config_path bt))])]"

definition timeout_text :: "backtester \<Rightarrow> string" where
  "timeout_text bt = ''Timeout after '' @ decimal (strategy_timeout bt) @ '' seconds''"

text \<open>
  What leaves the \<^verbatim>\<open>try\<close> block of \<^verbatim>\<open>run_backtest_worker\<close> as an exception: the timeout
  of the subprocess, or any other exception with its text.
\<close>

datatype raised = SubprocessTimeout | OtherException string

text \<open>
  The \<^verbatim>\<open>try\<close> block of \<^verbatim>\<open>run_backtest_worker\<close>: \<open>Inl\<close> is an exception with the world at the
  time it is raised, \<open>Inr\<close> the returned value with the world then.
\<close>

definition worker_body ::
  "'f env \<Rightarrow> backtester \<Rightarrow> world \<Rightarrow> string \<Rightarrow> (raised \<times> world) + ('f json option \<times> world)" where
  "worker_body E bt w strategy_name =
     (case (case load_existing_result (json_load E) bt (fs w) strategy_name of
              None \<Rightarrow> None
            | Some existing_result \<Rightarrow>
                if truthy E existing_result then Some existing_result else None) of
        Some existing_result \<Rightarrow> Inr (Some existing_result, w)
      | None \<Rightarrow>
          (case mkdir_exist_ok (fs w) strategy_name of
             None \<Rightarrow> Inl (OtherException (os_error_text E (results_path strategy_name)), w)
           | Some d1 \<Rightarrow>
               (let detected_timeframe = detect_timeframe E strategy_name;
                    cmd = backtest_cmd bt detected_timeframe strategy_name;
                    (result, d2) = run_backtesting E cmd (Some d1);
                    w2 = w\<lparr>fs := d2, calls := calls w @ [cmd]\<rparr>
                in case result of
                     TimeoutExpired \<Rightarrow> Inl (SubprocessTimeout, w2)
                   | ProcException text \<Rightarrow> Inl (OtherException text, w2)
                   | Completed returncode stdout stderr \<Rightarrow>
                       if returncode = 0 then
                         (case parse_backtest_output E stdout strategy_name of
                            None \<Rightarrow> Inl (OtherException ''list index out of range'', w2)
                          | Some metrics \<Rightarrow>
                              (let full_result = JObj (metrics_items metrics @
                                     metadata_items E bt detected_timeframe cmd)
                               in case write_file (child d2 strategy_name)
                                         (strategy_name @ ''_output.txt'') stdout of
                                    None \<Rightarrow>
                                      Inl (OtherException (os_error_text E
                                             (results_path strategy_name @ ''/'' @
                                              strategy_name @ ''_output.txt'')), w2)
                                  | Some sd \<Rightarrow>
                                      Inr (Some full_result,
                                           w2\<lparr>fs := save_strategy_result E
                                             (set_child d2 strategy_name sd)
                                             strategy_name full_result\<rparr>)))
                       else
                         (let failed_result = exit_failure E bt strategy_name
                                detected_timeframe stdout stderr
                          in Inr (None,
                               w2\<lparr>fs := cleanup_failed_strategy_directory
                                 (save_failed_result E d2 strategy_name failed_result)
                                 strategy_name\<rparr>)))))"

text \<open>\<^verbatim>\<open>run_backtest_worker\<close>: the \<^verbatim>\<open>try\<close> block and its two handlers.\<close>

definition run_backtest_worker ::
  "'f env \<Rightarrow> backtester \<Rightarrow> world \<Rightarrow> string \<Rightarrow> 'f json option \<times> world" where
  "run_backtest_worker E bt w strategy_name =
     (case worker_body E bt w strategy_name of
        Inr returned \<Rightarrow> returned
      | Inl (SubprocessTimeout, w1) \<Rightarrow>
          (None,
           w1\<lparr>fs := cleanup_failed_strategy_directory
             (save_failed_result E (fs w1) strategy_name
                (raised_failure E bt strategy_name (timeout_text bt)))
             strategy_name\<rparr>)
      | Inl (OtherException error, w1) \<Rightarrow>
          (None,
           w1\<lparr>fs := cleanup_failed_strategy_directory
             (save_failed_result E (fs w1) strategy_name
                (raised_failure E bt strategy_name error))
             strategy_name\<rparr>))"

section \<open>ResultStore: the reconciliation scan\<close>

text \<open>Opening a path and loading JSON from it; \<open>None\<close> when that raises.\<close>

definition read_json :: "'f env \<Rightarrow> node option \<Rightarrow> 'f json option" where
  "read_json E p = (case p of Some (File bytes) \<Rightarrow> json_load E bytes | _ \<Rightarrow> None)"

text \<open>
  The backtest data inside a ZIP archive: the first member whose name ends with \<^verbatim>\<open>.json\<close>
  and not with \<^verbatim>\<open>_config.json\<close>.
\<close>

definition zip_backtest_data :: "'f env \<Rightarrow> string \<Rightarrow> 'f json option" where
  "zip_backtest_data E bytes =
     (case unzip E bytes of
        None \<Rightarrow> None
      | Some members \<Rightarrow>
          (case filter (\<lambda>(name, content). endswith name ''.json'' \<and> \<not> endswith name ''_config.json'')
                  members of
             [] \<Rightarrow> None
           | (name, content) # _ \<Rightarrow> json_load E content))"

text \<open>
  The backtest data a strategy directory holds for the name in its pointer file: the JSON
  file when it exists, else the ZIP archive.
\<close>

definition load_backtest_data :: "'f env \<Rightarrow> dir \<Rightarrow> string \<Rightarrow> 'f json option" where
  "load_backtest_data E files latest_backtest =
     (let json_filename = str_replace latest_backtest ''.zip'' ''.json'' in
      case map_of files json_filename of
        Some json_file \<Rightarrow> read_json E (Some json_file)
      | None \<Rightarrow>
          (case map_of files latest_backtest of
             Some (File bytes) \<Rightarrow>
               if endswith latest_backtest ''.zip'' then zip_backtest_data E bytes else None
           | _ \<Rightarrow> None))"

text \<open>
  \<^verbatim>\<open>parse_strategy_json_data\<close> on the directory \<open>name\<close> with the entries \<open>files\<close>. Every
  exception is caught and gives \<^verbatim>\<open>None\<close>: a pointer that is no dict, a latest backtest that
  is no str, data that are no dict (the membership test or the \<^verbatim>\<open>get\<close> that follows it
  raises or fails on every other value). The metrics carry the name of the directory.
\<close>

definition parse_strategy_json_data :: "'f env \<Rightarrow> string \<Rightarrow> dir \<Rightarrow> 'f json option" where
  "parse_strategy_json_data E name files =
     (case read_json E (map_of files ''.last_result.json'') of
        None \<Rightarrow> None
      | Some last_result \<Rightarrow>
          (case py_get last_result ''latest_backtest'' JNull of
             None \<Rightarrow> None
           | Some latest_backtest \<Rightarrow>
               if \<not> truthy E latest_backtest then None
               else
                 (case latest_backtest of
                    JStr latest \<Rightarrow>
                      (case load_backtest_data E files latest of
                         None \<Rightarrow> None
                       | Some backtest_data \<Rightarrow>
                           if \<not> truthy E backtest_data then None
                           else
                             (case backtest_data of
                                JObj kv \<Rightarrow>
                                  (case map_of kv ''strategy'' of
                                     None \<Rightarrow> None
                                   | Some strategy_data \<Rightarrow>
                                       if \<not> truthy E strategy_data then None
                                       else
                                         (case extract_metrics E backtest_data of
                                            None \<Rightarrow> None
                                          | Some metric_fields \<Rightarrow>
                                              Some (JObj ((''strategy'', JStr name) #
                                                metric_fields))))
                              | _ \<Rightarrow> None))
                  | _ \<Rightarrow> None)))"

text \<open>
  The first loop of \<^verbatim>\<open>discover_all_successful_strategies\<close>, over the entries of the results
  directory: the names found and the dict of results so far.
\<close>

fun scan_result_dirs ::
  "'f env \<Rightarrow> dir \<Rightarrow> 'f json list \<times> ('f json \<times> 'f json) list \<Rightarrow>
   'f json list \<times> ('f json \<times> 'f json) list" where
  "scan_result_dirs E [] acc = acc"
| "scan_result_dirs E ((name, File bytes) # rest) acc = scan_result_dirs E rest acc"
| "scan_result_dirs E ((name, Dir files) # rest) (successful_strategies, results) =
     (if name = ''individual_results''
      then scan_result_dirs E rest (successful_strategies, results)
      else
        (case parse_strategy_json_data E name files of
           None \<Rightarrow> scan_result_dirs E rest (successful_strategies, results)
         | Some metrics \<Rightarrow>
             if truthy E metrics then
               scan_result_dirs E rest
                 (successful_strategies @ [JStr name], AList.update (JStr name) metrics results)
             else scan_result_dirs E rest (successful_strategies, results)))"

text \<open>
  The stem of a file name with every occurrence of a marker removed:
  \<^verbatim>\<open>stem.replace(marker, '')\<close> for a name that ends with \<^verbatim>\<open>.json\<close>.
\<close>

definition stem_without :: "string \<Rightarrow> string \<Rightarrow> string" where
  "stem_without file_name marker = str_replace (take (length file_name - 5) file_name) marker []"

text \<open>
  The identifier of a cached record: its \<^verbatim>\<open>strategy\<close> field, or the name derived from the
  file name. \<open>None\<close> when the file cannot be read as a dict.
\<close>

definition cached_record :: "'f env \<Rightarrow> string \<Rightarrow> string \<times> node \<Rightarrow> ('f json \<times> 'f json) option" where
  "cached_record E marker f =
     (case read_json E (Some (snd f)) of
        None \<Rightarrow> None
      | Some loaded \<Rightarrow>
          (case py_get loaded ''strategy'' (JStr (stem_without (fst f) marker)) of
             None \<Rightarrow> None
           | Some strategy_name \<Rightarrow> Some (strategy_name, loaded)))"

text \<open>
  The second loop, over the files \<^verbatim>\<open>*_result.json\<close> of \<^verbatim>\<open>individual_results\<close>. A cached
  record is added only when its identifier is not yet a key of the results; an exception
  (an unreadable file, an unhashable identifier) skips the file. Keys are compared as JSON
  values: that Python takes \<^verbatim>\<open>True\<close>, \<^verbatim>\<open>1\<close> and \<^verbatim>\<open>1.0\<close> for one key is not modelled; the
  identifiers the backtester writes are strings.
\<close>

fun scan_result_files ::
  "'f env \<Rightarrow> dir \<Rightarrow> 'f json list \<times> ('f json \<times> 'f json) list \<Rightarrow>
   'f json list \<times> ('f json \<times> 'f json) list" where
  "scan_result_files E [] acc = acc"
| "scan_result_files E (f # rest) (successful_strategies, results) =
     (if endswith (fst f) ''_result.json'' then
        (case cached_record E ''_result'' f of
           None \<Rightarrow> scan_result_files E rest (successful_strategies, results)
         | Some (strategy_name, result) \<Rightarrow>
             if hashable strategy_name \<and> strategy_name \<notin> fst ` set results then
               scan_result_files E rest
                 (successful_strategies @ [strategy_name],
                  AList.update strategy_name result results)
             else scan_result_files E rest (successful_strategies, results))
      else scan_result_files E rest (successful_strategies, results))"

text \<open>The entries a \<^verbatim>\<open>glob\<close> on \<^verbatim>\<open>individual_results\<close> goes through.\<close>

definition cache_entries :: "results_dir \<Rightarrow> dir" where
  "cache_entries rdir = (case individual_results_dir rdir of Some (Dir files) \<Rightarrow> files | _ \<Rightarrow> [])"

text \<open>
  \<^verbatim>\<open>sorted(list(set(names)))\<close> raises TypeError unless there is at most one name, or all
  names are strings, or all are numbers. The sorted order is modelled for strings.
\<close>

definition is_str :: "'f json \<Rightarrow> bool" where
  "is_str j = (case j of JStr _ \<Rightarrow> True | _ \<Rightarrow> False)"

definition is_num :: "'f json \<Rightarrow> bool" where
  "is_num j = (case j of JInt _ \<Rightarrow> True | JFloat _ \<Rightarrow> True | JBool _ \<Rightarrow> True | _ \<Rightarrow> False)"

definition sortable :: "'f json list \<Rightarrow> bool" where
  "sortable names \<longleftrightarrow>
     length (remdups names) \<le> 1 \<or> list_all is_str names \<or> list_all is_num names"

definition sorted_names :: "'f json list \<Rightarrow> 'f json list" where
  "sorted_names names =
     (if list_all is_str names
      then map JStr (sort (remdups (concat (map (\<lambda>j. case j of JStr s \<Rightarrow> [s] | _ \<Rightarrow> []) names))))
      else remdups names)"

text \<open>
  \<^verbatim>\<open>discover_all_successful_strategies\<close>: the names and the dict of results. \<^verbatim>\<open>iterdir\<close> of
  a results directory that is a regular file raises.
\<close>

definition discover_all_successful_strategies ::
  "'f env \<Rightarrow> results_dir \<Rightarrow> py_error + ('f json list \<times> ('f json \<times> 'f json) list)" where
  "discover_all_successful_strategies E rdir =
     (case rdir of
        None \<Rightarrow> Inr ([], [])
      | Some (File _) \<Rightarrow> Inl NotADirectoryError
      | Some (Dir entries) \<Rightarrow>
          (case scan_result_files E (cache_entries rdir) (scan_result_dirs E entries ([], [])) of
             (successful_strategies, results) \<Rightarrow>
               if sortable successful_strategies
               then Inr (sorted_names successful_strategies, results)
               else Inl TypeError))"

text \<open>
  The first loop of \<^verbatim>\<open>get_failed_strategies\<close>: a directory without successful results and
  with a file named \<^verbatim>\<open>*_failed*\<close> or \<^verbatim>\<open>*error*\<close> gives a failure record.
\<close>

definition failed_indicators :: "dir \<Rightarrow> dir" where
  "failed_indicators files =
     filter (\<lambda>f. str_contains ''_failed'' (fst f)) files @
     filter (\<lambda>f. str_contains ''error'' (fst f)) files"

fun scan_failed_dirs :: "'f env \<Rightarrow> dir \<Rightarrow> 'f json list \<Rightarrow> 'f json list" where
  "scan_failed_dirs E [] failed_strategies = failed_strategies"
| "scan_failed_dirs E ((name, File bytes) # rest) failed_strategies =
     scan_failed_dirs E rest failed_strategies"
| "scan_failed_dirs E ((name, Dir files) # rest) failed_strategies =
     (if name = ''individual_results'' then scan_failed_dirs E rest failed_strategies
      else if \<not> (case parse_strategy_json_data E name files of
                    None \<Rightarrow> False | Some metrics \<Rightarrow> truthy E metrics)
              \<and> failed_indicators files \<noteq> []
      then scan_failed_dirs E rest
             (failed_strategies @
              [JObj [(''strategy'', JStr name), (''error'', JStr ''Backtest failed''),
                     (''failed_timestamp'', JStr (now_isoformat E))]])
      else scan_failed_dirs E rest failed_strategies)"

text \<open>The identifier of a failure record of the list: \<^verbatim>\<open>fs.get('strategy')\<close>.\<close>

definition failure_id :: "'f json \<Rightarrow> 'f json" where
  "failure_id fr = (case py_get fr ''strategy'' JNull of Some v \<Rightarrow> v | None \<Rightarrow> JNull)"

text \<open>
  The second loop, over the files \<^verbatim>\<open>*_failed.json\<close> of \<^verbatim>\<open>individual_results\<close>: a cached
  failure record is added unless a record of the list has its identifier.
\<close>

fun scan_failed_files :: "'f env \<Rightarrow> dir \<Rightarrow> 'f json list \<Rightarrow> 'f json list" where
  "scan_failed_files E [] failed_strategies = failed_strategies"
| "scan_failed_files E (f # rest) failed_strategies =
     (if endswith (fst f) ''_failed.json'' then
        (case cached_record E ''_failed'' f of
           None \<Rightarrow> scan_failed_files E rest failed_strategies
         | Some (strategy_name, failed_result) \<Rightarrow>
             if \<not> list_ex (\<lambda>fr. failure_id fr = strategy_name) failed_strategies
             then scan_failed_files E rest (failed_strategies @ [failed_result])
             else scan_failed_files E rest failed_strategies)
      else scan_failed_files E rest failed_strategies)"

definition get_failed_strategies :: "'f env \<Rightarrow> results_dir \<Rightarrow> py_error + 'f json list" where
  "get_failed_strategies E rdir =
     (case rdir of
        None \<Rightarrow> Inr []
      | Some (File _) \<Rightarrow> Inl NotADirectoryError
      | Some (Dir entries) \<Rightarrow>
          Inr (scan_failed_files E (cache_entries rdir) (scan_failed_dirs E entries [])))"

text \<open>\<^verbatim>\<open>collect_all_results\<close>: the dict of results and the list of failure records.\<close>

definition collect_all_results ::
  "'f env \<Rightarrow> results_dir \<Rightarrow> py_error + (('f json \<times> 'f json) list \<times> 'f json list)" where
  "collect_all_results E rdir =
     (case discover_all_successful_strategies E rdir of
        Inl e \<Rightarrow> Inl e
      | Inr (successful_strategies, results) \<Rightarrow>
          (case get_failed_strategies E rdir of
             Inl e \<Rightarrow> Inl e
           | Inr failed_strategies \<Rightarrow> Inr (results, failed_strategies)))"

section \<open>Vocabulary of the properties\<close>






text \<open>
  A failure record of a strategy: a dict with the identifier, an error text and the
  timestamp of the call.
\<close>

definition error_of :: "'f json \<Rightarrow> string option" where
  "error_of r = (case py_get r ''error'' JNull of Some (JStr e) \<Rightarrow> Some e | _ \<Rightarrow> None)"

definition failure_record :: "'f env \<Rightarrow> string \<Rightarrow> 'f json \<Rightarrow> bool" where
  "failure_record E n r \<longleftrightarrow>
     py_get r ''strategy'' JNull = Some (JStr n) \<and> error_of r \<noteq> None \<and>
     py_get r ''failed_timestamp'' JNull = Some (JStr (now_isoformat E))"

text \<open>The node at \<^verbatim>\<open>individual_results/<name>_failed.json\<close>.\<close>

definition failed_file :: "results_dir \<Rightarrow> string \<Rightarrow> node option" where
  "failed_file rdir n = child (individual_results_dir rdir) (n @ ''_failed.json'')"

text \<open>
  What the backtesting subprocess of a call gives, when the call gets as far as running
  it: \<open>None\<close> when creating the strategy's directory raises before.
\<close>

definition launched :: "'f env \<Rightarrow> backtester \<Rightarrow> world \<Rightarrow> string \<Rightarrow> proc_result option" where
  "launched E bt w n =
     (case mkdir_exist_ok (fs w) n of
        None \<Rightarrow> None
      | Some d1 \<Rightarrow>
          Some (fst (run_backtesting E (backtest_cmd bt (detect_timeframe E n) n) (Some d1))))"

text \<open>
  An identifier that names an entry of the results directory: a single path component that
  is not \<^verbatim>\<open>.\<close> or \<^verbatim>\<open>..\<close>. For such an identifier \<^verbatim>\<open>results_dir / strategy_name\<close> is the
  entry of that name.
\<close>

definition plain_name :: "string \<Rightarrow> bool" where
  "plain_name n \<longleftrightarrow>
     n \<noteq> [] \<and> n \<noteq> ''.'' \<and> n \<noteq> ''..'' \<and> CHR ''/'' \<notin> set n \<and> CHR 0x00 \<notin> set n"

text \<open>
  The results directory at the time a failing call records its failure: as the call found
  it when creating the strategy's directory raised, and as the subprocess left it
  otherwise.
\<close>

definition dir_at_failure :: "'f env \<Rightarrow> backtester \<Rightarrow> world \<Rightarrow> string \<Rightarrow> results_dir" where
  "dir_at_failure E bt w n =
     (case mkdir_exist_ok (fs w) n of
        None \<Rightarrow> fs w
      | Some d1 \<Rightarrow> snd (run_backtesting E (backtest_cmd bt (detect_timeframe E n) n) (Some d1)))"

text \<open>
  The sources of the reconciliation scan. A directory of the results directory is a
  success source when \<open>parse_strategy_json_data\<close> gives metrics for it, and a failure
  source when it gives none and the directory holds a failure indicator; the cached
  records are those of the files \<^verbatim>\<open>*_result.json\<close> and \<^verbatim>\<open>*_failed.json\<close> that load as a dict,
  with their identifiers.
\<close>

definition dir_metrics :: "'f env \<Rightarrow> string \<times> node \<Rightarrow> 'f json option" where
  "dir_metrics E e =
     (case e of
        (name, Dir files) \<Rightarrow>
          if name = ''individual_results'' then None else parse_strategy_json_data E name files
      | (name, File _) \<Rightarrow> None)"

definition dir_parses :: "'f env \<Rightarrow> string \<times> node \<Rightarrow> bool" where
  "dir_parses E e \<longleftrightarrow> dir_metrics E e \<noteq> None"

definition dir_failed :: "'f env \<Rightarrow> string \<times> node \<Rightarrow> bool" where
  "dir_failed E e =
     (case e of
        (name, Dir files) \<Rightarrow>
          name \<noteq> ''individual_results'' \<and> dir_metrics E e = None \<and> failed_indicators files \<noteq> []
      | (name, File _) \<Rightarrow> False)"

definition parsable_dirs :: "'f env \<Rightarrow> dir \<Rightarrow> string list" where
  "parsable_dirs E entries = map fst (filter (dir_parses E) entries)"

definition failed_dirs :: "'f env \<Rightarrow> dir \<Rightarrow> string list" where
  "failed_dirs E entries = map fst (filter (dir_failed E) entries)"

definition cached_records :: "'f env \<Rightarrow> string \<Rightarrow> dir \<Rightarrow> ('f json \<times> 'f json) list" where
  "cached_records E marker files =
     concat (map (\<lambda>f. if endswith (fst f) (marker @ ''.json'')
                       then (case cached_record E marker f of None \<Rightarrow> [] | Some r \<Rightarrow> [r])
                       else []) files)"

definition cached_success_ids :: "'f env \<Rightarrow> dir \<Rightarrow> 'f json list" where
  "cached_success_ids E entries =
     map fst (cached_records E ''_result'' (cache_entries (Some (Dir entries))))"

definition cached_failure_ids :: "'f env \<Rightarrow> dir \<Rightarrow> 'f json list" where
  "cached_failure_ids E entries =
     map (failure_id \<circ> snd) (cached_records E ''_failed'' (cache_entries (Some (Dir entries))))"

text \<open>
  No identifier of a cached success record is that of a failure source, and no identifier
  of a cached failure record is that of a directory with metrics.
\<close>

definition separate_sources :: "'f env \<Rightarrow> dir \<Rightarrow> bool" where
  "separate_sources E entries \<longleftrightarrow>
     set (cached_success_ids E entries) \<inter>
       (JStr ` set (failed_dirs E entries) \<union> set (cached_failure_ids E entries)) = {} \<and>
     set (cached_failure_ids E entries) \<inter> JStr ` set (parsable_dirs E entries) = {}"

section \<open>Example states\<close>

definition demo_bt :: backtester where
  "demo_bt = \<lparr>config_path = ''user_data/config.json'', start_date = ''20240101'',
     end_date = ''20241231'', timeframe = ''5m'', strategy_timeout = 300\<rparr>"

text \<open>A stored record of a run over the window of \<open>demo_bt\<close>, on another timeframe.\<close>

definition demo_record :: "real json" where
  "demo_record = JObj
     [(''strategy'', JStr ''A''),
      (''total_trades'', JInt 12),
      (''execution_time'', JFloat 41.5),
      (''backtest_timestamp'', JStr ''2025-01-05T10:00:00''),
      (''backtest_config'', JObj
         [(''start_date'', JStr ''20240101''), (''end_date'', JStr ''20241231''),
          (''config_path'', JStr ''other.json''), (''timeframe'', JStr ''1h'')])]"

text \<open>A failure record of strategy \<^verbatim>\<open>A\<close>, the pointer file of an export and an export.\<close>

definition demo_failure :: "real json" where
  "demo_failure = JObj
     [(''strategy'', JStr ''A''),
      (''error'', JStr ''Timeout after 300 seconds''),
      (''stdout'', JStr []),
      (''failed_timestamp'', JStr ''2025-01-04T08:00:00'')]"

definition demo_pointer :: "real json" where
  "demo_pointer = JObj [(''latest_backtest'', JStr ''backtest-result.json'')]"

definition demo_export :: "real json" where
  "demo_export = JObj
     [(''strategy'', JObj [(''A'', JObj [(''total_trades'', JInt 12)])]),
      (''strategy_comparison'', JArr [JObj [(''key'', JStr ''A''), (''trades'', JInt 12)]])]"

text \<open>A \<^verbatim>\<open>json.load\<close> that reads four byte strings and fails on every other.\<close>

definition demo_loads :: "string \<Rightarrow> real json option" where
  "demo_loads bytes =
     map_of [(''A-record'', demo_record), (''A-failure'', demo_failure),
             (''pointer'', demo_pointer), (''export'', demo_export)] bytes"

definition demo_root :: results_dir where
  "demo_root = Some (Dir
     [(''individual_results'', Dir [(''A_result.json'', File ''A-record'')])])"

text \<open>A strategies directory with two strategies and a directory without its file.\<close>

definition demo_strategies_dir :: "node option" where
  "demo_strategies_dir = Some (Dir
     [(''Beta'', Dir [(''Beta.py'', File ''class Beta'')]),
      (''Alpha'', Dir [(''Alpha.py'', File ''class Alpha''), (''notes.txt'', File [])]),
      (''Gamma'', Dir [(''other.py'', File [])]),
      (''README.md'', File ''strategies'')])"

text \<open>A content search that matched two lines of one file and one line of another.\<close>

definition demo_grep :: proc_result where
  "demo_grep = Completed 0
     (''user_data/strategies/Beta/Beta.py:    def populate_entry_trend(self):'' @ newline @
      ''user_data/strategies/Beta/Beta.py:        # populate_entry_trend'' @ newline @
      ''user_data/strategies/Alpha/Alpha.py:    def populate_entry_trend(self):'' @ newline)
     []"

text \<open>
  An environment. Its \<^verbatim>\<open>float\<close> and \<^verbatim>\<open>int\<close> read the decimal literals of the examples and
  refuse every other text; its backtesting tool times out on \<^verbatim>\<open>Slow\<close>, leaving a partial
  export behind, exits with code 1 on \<^verbatim>\<open>Broken\<close>, and succeeds otherwise.
\<close>

definition demo_float :: "string \<Rightarrow> real option" where
  "demo_float s = map_of [(''1.5'', 1.5), (''2.5'', 2.5), (''25.0'', 25), (''60.0'', 60)] s"

definition demo_int :: "string \<Rightarrow> int option" where
  "demo_int s = map_of [(''10'', 10), (''6'', 6), (''4'', 4), (''0'', 0)] s"

definition demo_dumps :: "real json \<Rightarrow> string" where
  "demo_dumps j =
     (case py_get j ''strategy'' JNull of Some (JStr n) \<Rightarrow> n @ ''-record'' | _ \<Rightarrow> ''json'')"

text \<open>A table row with the given cells.\<close>

definition demo_row :: "string list \<Rightarrow> string" where
  "demo_row cs = concat (map (\<lambda>c. box @ '' '' @ c @ '' '') cs) @ box"

text \<open>The summary row of strategy \<^verbatim>\<open>S\<close> with the given text in its average profit cell.\<close>

definition demo_summary :: "string \<Rightarrow> string" where
  "demo_summary avg =
     demo_row [''S'', ''10'', avg, ''25.0'', ''2.5'', ''1:00:00'', ''6 0 4 60.0'', ''1.5'']"

definition demo_tool :: "string list \<Rightarrow> node option \<Rightarrow> proc_result \<times> node option" where
  "demo_tool cmd d =
     (if item cmd 5 = Some ''Slow''
      then (TimeoutExpired, set_child d ''Slow'' (Dir [(''Slow_backtest.json'', File ''partial'')]))
      else if item cmd 5 = Some ''Broken''
      then (Completed 1 [] ''ImportError: No module named talib'', d)
      else (Completed 0 (demo_summary ''1.5'') [], d))"

definition demo_env :: "real env" where
  "demo_env = \<lparr>json_load = demo_loads, json_dump = demo_dumps, py_float = demo_float,
     py_int = demo_int, float_zero = 0, float_true = (\<lambda>x. x \<noteq> 0),
     run_backtesting = demo_tool, detect_timeframe = (\<lambda>n. ''5m''),
     now_isoformat = ''2025-01-06T09:30:00'', elapsed_time = 12.5,
     freqtrade_version = ''freqtrade 2024.12'', os_error_text = (\<lambda>p. ''[Errno 2] '' @ p),
     unzip = (\<lambda>bytes. None),
     extract_metrics = (\<lambda>j. if j = demo_export then Some [(''total_trades'', JInt 12)] else None)\<rparr>"

definition demo_world :: world where
  "demo_world = \<lparr>fs = demo_root, calls = []\<rparr>"

text \<open>A results directory that exists and has lost its \<^verbatim>\<open>individual_results\<close>.\<close>

definition bare_world :: world where
  "bare_world = \<lparr>fs = Some (Dir []), calls = []\<rparr>"

text \<open>The environment with a backtesting tool that exits with code 1 on every strategy.\<close>

definition failing_env :: "real env" where
  "failing_env = demo_env\<lparr>run_backtesting := (\<lambda>cmd d. (Completed 1 [] ''Strategy not found'', d))\<rparr>"

text \<open>
  A results directory with the debris of a failed run of \<^verbatim>\<open>Slow\<close> and the complete export
  of \<^verbatim>\<open>Done\<close>.
\<close>

definition demo_artifacts :: results_dir where
  "demo_artifacts = Some (Dir
     [(''Slow'', Dir [(''Slow_backtest.json'', File ''partial''), (''Slow_output.txt'', File [])]),
      (''Done'', Dir [(''Done_backtest.json'', File (replicate 1500 (CHR ''x'')))]),
      (''individual_results'', Dir [])])"

text \<open>
  Results directories for the reconciliation scan: the strategy \<^verbatim>\<open>A\<close> with an export and a
  cached record and the strategy \<^verbatim>\<open>B\<close> with a failure indicator; \<^verbatim>\<open>A\<close> with a directory
  that holds no export and a cached record; \<^verbatim>\<open>A\<close> with a cached record and a cached
  failure record.
\<close>

definition demo_exported :: dir where
  "demo_exported =
     [(''A'', Dir [(''.last_result.json'', File ''pointer''),
                   (''backtest-result.json'', File ''export'')]),
      (''B'', Dir [(''B_error.log'', File ''Traceback'')]),
      (''individual_results'', Dir [(''A_result.json'', File ''A-record'')])]"

definition demo_unparsed :: dir where
  "demo_unparsed =
     [(''A'', Dir [(''A_output.txt'', File ''Result for strategy A'')]),
      (''individual_results'', Dir [(''A_result.json'', File ''A-record'')])]"

definition demo_both :: dir where
  "demo_both =
     [(''individual_results'',
       Dir [(''A_result.json'', File ''A-record''), (''A_failed.json'', File ''A-failure'')])]"

text \<open>
  The strategy \<^verbatim>\<open>A\<close> with a directory that holds no export and a cached file that does not
  load.
\<close>

definition demo_unreadable :: dir where
  "demo_unreadable =
     [(''A'', Dir [(''A_output.txt'', File ''Result for strategy A'')]),
      (''individual_results'', Dir [(''A_result.json'', File ''truncated'')])]"

section \<open>Properties\<close>

subsection \<open>Cache validation in \<open>load_existing_result\<close>\<close>

lemma load_existing_result_stored:
  "load_existing_result loads bt rdir n =
     (case stored_result loads rdir n of
        None \<Rightarrow> None
      | Some r \<Rightarrow> if window_matches bt r then Some r else None)"
  by (auto simp: load_existing_result_def stored_result_def window_matches_def
      split: option.splits node.splits)

lemma demo_stored: "stored_result demo_loads demo_root ''A'' = Some demo_record"
  by (simp add: stored_result_def get_strategy_result_file_def individual_results_dir_def
      child_def demo_root_def demo_loads_def)

lemma demo_window: "window_matches demo_bt demo_record"
  by (simp add: window_matches_def config_field_def py_get_def demo_record_def demo_bt_def)

lemma demo_window_moved:
  "\<not> window_matches (demo_bt\<lparr>end_date := ''20250630''\<rparr>) demo_record"
  by (simp add: window_matches_def config_field_def py_get_def demo_record_def demo_bt_def)

lemma fresh_result_window:
  "window_matches bt (JObj (metrics_items m @ metadata_items E bt tf cmd))"
  by (simp add: window_matches_def config_field_def py_get_def metrics_items_def
      metadata_items_def)

text \<open>
  A call of the worker that finds no valid record: a result it returns is a new one, of the
  active window, and it has run the backtesting command, unless creating the directory of
  the strategy raised.
\<close>

lemma worker_rerun:
  assumes "load_existing_result (json_load E) bt (fs w) n = None"
  shows "(\<forall>r. fst (run_backtest_worker E bt w n) = Some r \<longrightarrow> window_matches bt r) \<and>
     (case launched E bt w n of
        None \<Rightarrow> fst (run_backtest_worker E bt w n) = None \<and>
                calls (snd (run_backtest_worker E bt w n)) = calls w
      | Some p \<Rightarrow> calls (snd (run_backtest_worker E bt w n)) =
                    calls w @ [backtest_cmd bt (detect_timeframe E n) n])"
  using assms fresh_result_window
  unfolding run_backtest_worker_def worker_body_def launched_def
  by (auto simp: Let_def
      split: option.splits if_splits prod.splits proc_result.splits sum.splits raised.splits)

text \<open>
  C1. \<open>load_existing_result\<close> returns a record only if it is the persisted record of the
  strategy and the start and end dates of its stored configuration both equal the active
  ones; a persisted record with another start or end date is treated as absent: the
  function returns \<open>None\<close>, and the strategy is run again. Its caller
  \<open>run_backtest_worker\<close> then does not return the stale record: it runs the backtesting
  command of the strategy as its one external call, unless creating the directory of the
  strategy raises, and then the call fails without a result.
\<close>

theorem load_existing_result_window:
  "(load_existing_result loads bt rdir n = Some r \<longrightarrow>
      stored_result loads rdir n = Some r \<and> window_matches bt r) \<and>
   (stored_result loads rdir n = Some r \<and> \<not> window_matches bt r \<longrightarrow>
      load_existing_result loads bt rdir n = None) \<and>
   (stored_result (json_load E) (fs w) n = Some r \<and> \<not> window_matches bt r \<longrightarrow>
      fst (run_backtest_worker E bt w n) \<noteq> Some r \<and>
      (case launched E bt w n of
         None \<Rightarrow> fst (run_backtest_worker E bt w n) = None \<and>
                 calls (snd (run_backtest_worker E bt w n)) = calls w
       | Some p \<Rightarrow> calls (snd (run_backtest_worker E bt w n)) =
                     calls w @ [backtest_cmd bt (detect_timeframe E n) n]))"
proof (intro conjI impI)
  assume "load_existing_result loads bt rdir n = Some r"
  then show "stored_result loads rdir n = Some r"
    by (simp add: load_existing_result_stored split: option.splits if_splits)
next
  assume "load_existing_result loads bt rdir n = Some r"
  then show "window_matches bt r"
    by (simp add: load_existing_result_stored split: option.splits if_splits)
next
  assume "stored_result loads rdir n = Some r \<and> \<not> window_matches bt r"
  then show "load_existing_result loads bt rdir n = None"
    by (simp add: load_existing_result_stored)
next
  assume a: "stored_result (json_load E) (fs w) n = Some r \<and> \<not> window_matches bt r"
  then have "load_existing_result (json_load E) bt (fs w) n = None"
    by (simp add: load_existing_result_stored)
  with a worker_rerun [of E bt w n]
  show "fst (run_backtest_worker E bt w n) \<noteq> Some r"
    by blast
next
  assume a: "stored_result (json_load E) (fs w) n = Some r \<and> \<not> window_matches bt r"
  then have "load_existing_result (json_load E) bt (fs w) n = None"
    by (simp add: load_existing_result_stored)
  with worker_rerun [of E bt w n]
  show "case launched E bt w n of
      None \<Rightarrow> fst (run_backtest_worker E bt w n) = None \<and>
              calls (snd (run_backtest_worker E bt w n)) = calls w
    | Some p \<Rightarrow> calls (snd (run_backtest_worker E bt w n)) =
                  calls w @ [backtest_cmd bt (detect_timeframe E n) n]"
    by blast
qed

theorem load_existing_result_window_witness:
  "load_existing_result demo_loads demo_bt demo_root ''A'' = Some demo_record \<and>
   stored_result demo_loads demo_root ''A'' = Some demo_record \<and>
   window_matches demo_bt demo_record \<and>
   \<not> window_matches (demo_bt\<lparr>end_date := ''20250630''\<rparr>) demo_record \<and>
   load_existing_result demo_loads (demo_bt\<lparr>end_date := ''20250630''\<rparr>) demo_root ''A'' = None \<and>
   stored_result (json_load demo_env) (fs demo_world) ''A'' = Some demo_record \<and>
   fst (run_backtest_worker demo_env (demo_bt\<lparr>end_date := ''20250630''\<rparr>) demo_world ''A'')
     \<noteq> Some demo_record \<and>
   calls (snd (run_backtest_worker demo_env (demo_bt\<lparr>end_date := ''20250630''\<rparr>) demo_world
     ''A'')) = [backtest_cmd (demo_bt\<lparr>end_date := ''20250630''\<rparr>) ''5m'' ''A'']"
proof -
  let ?bt = "demo_bt\<lparr>end_date := ''20250630''\<rparr>"
  have hit: "load_existing_result demo_loads demo_bt demo_root ''A'' = Some demo_record"
    by (simp add: load_existing_result_stored demo_stored demo_window)
  from load_existing_result_window
    [where loads = demo_loads and bt = demo_bt and rdir = demo_root and n = "''A''"
      and r = demo_record] hit
  have a: "stored_result demo_loads demo_root ''A'' = Some demo_record \<and>
      window_matches demo_bt demo_record"
    by blast
  from load_existing_result_window
    [where loads = demo_loads and bt = ?bt and rdir = demo_root and n = "''A''"
      and r = demo_record]
    demo_stored demo_window_moved
  have b: "load_existing_result demo_loads ?bt demo_root ''A'' = None"
    by blast
  have st: "stored_result (json_load demo_env) (fs demo_world) ''A'' = Some demo_record"
    using demo_stored by (simp add: demo_env_def demo_world_def)
  have l: "launched demo_env ?bt demo_world ''A'' = Some (Completed 0 (demo_summary ''1.5'') [])"
    by (simp add: launched_def demo_env_def demo_world_def demo_root_def demo_tool_def
        mkdir_exist_ok_def item_def backtest_cmd_def)
  from load_existing_result_window
    [where E = demo_env and bt = ?bt and w = demo_world and n = "''A''" and r = demo_record]
    st demo_window_moved
  have c: "fst (run_backtest_worker demo_env ?bt demo_world ''A'') \<noteq> Some demo_record \<and>
      (case launched demo_env ?bt demo_world ''A'' of
         None \<Rightarrow> fst (run_backtest_worker demo_env ?bt demo_world ''A'') = None \<and>
                 calls (snd (run_backtest_worker demo_env ?bt demo_world ''A'')) = calls demo_world
       | Some p \<Rightarrow> calls (snd (run_backtest_worker demo_env ?bt demo_world ''A'')) =
                     calls demo_world @ [backtest_cmd ?bt (detect_timeframe demo_env ''A'') ''A''])"
    by blast
  then have d: "calls (snd (run_backtest_worker demo_env ?bt demo_world ''A'')) =
      [backtest_cmd ?bt ''5m'' ''A'']"
    by (simp add: l) (simp add: demo_env_def demo_world_def)
  from hit a b st c d demo_window_moved show ?thesis by blast
qed

text \<open>
  C10. A persisted record whose stored start and end dates equal the active ones is
  returned as a cache hit whatever its other stored fields are: no other field of the
  record is read, and the active configuration path and timeframe do not take part.
\<close>

theorem load_existing_result_only_window:
  "stored_result loads rdir n = Some r \<and> window_matches bt r \<longrightarrow>
     load_existing_result loads bt rdir n = Some r \<and>
     load_existing_result loads (bt\<lparr>config_path := c, timeframe := t\<rparr>) rdir n = Some r"
  by (simp add: load_existing_result_stored window_matches_def)

theorem load_existing_result_only_window_witness:
  "config_field demo_record ''timeframe'' = Some (JStr ''1h'') \<and>
   config_field demo_record ''config_path'' = Some (JStr ''other.json'') \<and>
   timeframe demo_bt = ''5m'' \<and> config_path demo_bt = ''user_data/config.json'' \<and>
   load_existing_result demo_loads demo_bt demo_root ''A'' = Some demo_record \<and>
   load_existing_result demo_loads (demo_bt\<lparr>config_path := ''x.json'', timeframe := ''1d''\<rparr>)
     demo_root ''A'' = Some demo_record"
proof -
  have f: "config_field demo_record ''timeframe'' = Some (JStr ''1h'') \<and>
      config_field demo_record ''config_path'' = Some (JStr ''other.json'')"
    by (simp add: config_field_def py_get_def demo_record_def)
  have g: "timeframe demo_bt = ''5m'' \<and> config_path demo_bt = ''user_data/config.json''"
    by (simp add: demo_bt_def)
  from load_existing_result_only_window
    [where loads = demo_loads and rdir = demo_root and n = "''A''" and r = demo_record
      and bt = demo_bt and c = "''x.json''" and t = "''1d''"]
    demo_stored demo_window f g
  show ?thesis by blast
qed

subsection \<open>The strategies to process\<close>

text \<open>
  C3, as the code has it. When every failure record is a dict with a hashable identifier,
  \<open>get_strategies_to_process\<close> returns the identifiers of \<open>all_strategies\<close> that are neither
  completed nor failed, in discovery order, followed, when \<open>include_failed\<close> is on, by the
  identifiers of \<open>all_strategies\<close> that are failed, in discovery order. No completed
  identifier is in the pending group, and a completed identifier is in the returned list
  only when \<open>include_failed\<close> is on and the identifier is failed as well.
\<close>

theorem get_strategies_to_process_partition:
  "failed_ids failed_strategies = Inr fl \<longrightarrow>
     get_strategies_to_process results failed_strategies all_strategies include_failed =
       Inr (filter (\<lambda>s. JStr s \<notin> fst ` set results \<and> JStr s \<notin> set fl) all_strategies @
            (if include_failed then filter (\<lambda>s. JStr s \<in> set fl) all_strategies else [])) \<and>
     (\<forall>xs s. get_strategies_to_process results failed_strategies all_strategies include_failed
          = Inr xs \<and> s \<in> set xs \<and> JStr s \<in> fst ` set results
        \<longrightarrow> include_failed \<and> JStr s \<in> set fl)"
  by (auto simp: get_strategies_to_process_def Let_def)

theorem get_strategies_to_process_partition_witness:
  "failed_ids [JObj [(''strategy'', JStr ''B''), (''error'', JStr ''Timeout after 300 seconds'')]]
     = Inr [JStr ''B'' :: real json] \<and>
   get_strategies_to_process [(JStr ''A'', JNull :: real json)]
     [JObj [(''strategy'', JStr ''B''), (''error'', JStr ''Timeout after 300 seconds'')]]
     [''C'', ''B'', ''A'', ''D''] True = Inr [''C'', ''D'', ''B'']"
proof -
  have ids: "failed_ids [JObj [(''strategy'', JStr ''B''),
      (''error'', JStr ''Timeout after 300 seconds'')]] = Inr [JStr ''B'' :: real json]"
    by (simp add: py_get_def hashable_def)
  from get_strategies_to_process_partition
    [where failed_strategies = "[JObj [(''strategy'', JStr ''B''),
        (''error'', JStr ''Timeout after 300 seconds'')]]"
      and fl = "[JStr ''B'' :: real json]" and results = "[(JStr ''A'', JNull)]"
      and all_strategies = "[''C'', ''B'', ''A'', ''D'']" and include_failed = True] ids
  show ?thesis by (simp del: failed_ids.simps)
qed

text \<open>
  C3 as stated fails: an identifier that is completed and failed at once is returned for
  retry, so a completed identifier does appear in the returned list.
\<close>

theorem get_strategies_to_process_completed_counterexample:
  "get_strategies_to_process [(JStr ''A'', JObj [(''strategy'', JStr ''A'')] :: real json)]
     [JObj [(''strategy'', JStr ''A''), (''error'', JStr ''Timeout after 300 seconds'')]]
     [''A''] True = Inr [''A''] \<and>
   (JStr ''A'' :: real json) \<in> fst ` set [(JStr ''A'', JObj [(''strategy'', JStr ''A'')])]"
  by (simp add: get_strategies_to_process_def py_get_def hashable_def)

subsection \<open>Discovery\<close>

lemma collect_compatible_distinct:
  "distinct acc \<Longrightarrow> distinct (collect_compatible ls acc)"
  by (induction ls acc rule: collect_compatible.induct) (auto simp: Let_def)

lemma get_compatible_strategies_sorted:
  "sorted (get_compatible_strategies g) \<and> distinct (get_compatible_strategies g)"
  by (auto simp: get_compatible_strategies_def collect_compatible_distinct
      split: proc_result.splits)

lemma discover_strategies_from_filesystem_sorted:
  assumes "discover_strategies_from_filesystem d = Inr xs" and "distinct_names d"
  shows "sorted xs \<and> distinct xs"
proof (cases d)
  case None
  with assms show ?thesis by (simp add: discover_strategies_from_filesystem_def)
next
  case (Some n)
  with assms show ?thesis
    by (cases n)
      (auto simp: discover_strategies_from_filesystem_def distinct_names_def distinct_map_filter)
qed

text \<open>
  C5, as the code has it. Every sequence a discovery returns is sorted. The compatibility
  filter and the filesystem scan (directory names are pairwise different) return no
  duplicates; the native listing returns a duplicate exactly when the tool's output, after
  stripping and filtering its lines, lists an identifier twice.
\<close>

theorem discover_strategies_sorted:
  "discover_strategies listing grep strategies_dir compatible_only = Inr xs \<and>
   distinct_names strategies_dir \<longrightarrow>
     sorted xs \<and>
     (distinct xs \<longleftrightarrow>
        (\<forall>out. native_listing listing compatible_only = Some out \<longrightarrow>
           distinct (listed_strategies out))) \<and>
     sorted (get_compatible_strategies grep) \<and> distinct (get_compatible_strategies grep) \<and>
     (\<forall>ys. discover_strategies_from_filesystem strategies_dir = Inr ys \<longrightarrow>
        sorted ys \<and> distinct ys)"
proof (intro impI, elim conjE)
  assume r: "discover_strategies listing grep strategies_dir compatible_only = Inr xs"
    and d: "distinct_names strategies_dir"
  have fs: "\<forall>ys. discover_strategies_from_filesystem strategies_dir = Inr ys \<longrightarrow>
      sorted ys \<and> distinct ys"
    using discover_strategies_from_filesystem_sorted d by blast
  have main: "sorted xs \<and>
     (distinct xs \<longleftrightarrow>
        (\<forall>out. native_listing listing compatible_only = Some out \<longrightarrow>
           distinct (listed_strategies out)))"
  proof (cases compatible_only)
    case True
    with r show ?thesis
      using get_compatible_strategies_sorted [of grep]
      by (auto simp: discover_strategies_def native_listing_def)
  next
    case False
    show ?thesis
    proof (cases "native_listing listing compatible_only")
      case None
      with False r have "discover_strategies_from_filesystem strategies_dir = Inr xs"
        by (auto simp: discover_strategies_def native_listing_def
            split: proc_result.splits if_splits)
      with fs None show ?thesis by simp
    next
      case (Some out)
      with False r have "xs = sort (listed_strategies out)"
        by (auto simp: discover_strategies_def native_listing_def
            split: proc_result.splits if_splits)
      with Some show ?thesis by simp
    qed
  qed
  from main fs get_compatible_strategies_sorted [of grep]
  show "sorted xs \<and>
     (distinct xs \<longleftrightarrow>
        (\<forall>out. native_listing listing compatible_only = Some out \<longrightarrow>
           distinct (listed_strategies out))) \<and>
     sorted (get_compatible_strategies grep) \<and> distinct (get_compatible_strategies grep) \<and>
     (\<forall>ys. discover_strategies_from_filesystem strategies_dir = Inr ys \<longrightarrow>
        sorted ys \<and> distinct ys)"
    by blast
qed

theorem discover_strategies_sorted_witness:
  "discover_strategies (Completed 1 [] ''no config'') demo_grep demo_strategies_dir False
     = Inr [''Alpha'', ''Beta''] \<and>
   distinct_names demo_strategies_dir \<and>
   sorted [''Alpha'', ''Beta''] \<and> distinct [''Alpha'', ''Beta''] \<and>
   get_compatible_strategies demo_grep = [''Alpha'', ''Beta'']"
proof -
  have r: "discover_strategies (Completed 1 [] ''no config'') demo_grep demo_strategies_dir False
     = Inr [''Alpha'', ''Beta'']"
    by (simp add: discover_strategies_def discover_strategies_from_filesystem_def
        demo_strategies_dir_def is_dir_def startswith_def child_def)
  have d: "distinct_names demo_strategies_dir"
    by (simp add: distinct_names_def demo_strategies_dir_def)
  have g: "get_compatible_strategies demo_grep = [''Alpha'', ''Beta'']"
    by (simp add: get_compatible_strategies_def demo_grep_def newline_def str_split_def
        str_strip_def space_width_def whitespace_def str_contains_def first_field_def endswith_def
        parent_name_def path_parts_def sublist_code suffix_to_prefix Let_def)
  from discover_strategies_sorted
    [where listing = "Completed 1 [] ''no config''" and grep = demo_grep
      and strategies_dir = demo_strategies_dir and compatible_only = False
      and xs = "[''Alpha'', ''Beta'']"] r d g
  show ?thesis by simp
qed

text \<open>
  C5 as stated fails for the native listing: its lines are sorted and returned as they
  are, so an identifier the tool lists twice is returned twice.
\<close>

theorem discover_strategies_duplicate_counterexample:
  "discover_strategies
     (Completed 0 (''Beta'' @ newline @ ''Alpha'' @ newline @ ''Beta'' @ newline) [])
     TimeoutExpired None False = Inr [''Alpha'', ''Beta'', ''Beta''] \<and>
   \<not> distinct [''Alpha'', ''Beta'', ''Beta'']"
  by (simp add: discover_strategies_def listed_strategies_def str_split_def str_strip_def
      newline_def space_width_def whitespace_def startswith_def)

subsection \<open>Evaluation of the examples\<close>

lemmas fs_defs = child_def individual_results_dir_def get_strategy_result_file_def
  write_file_def mkdir_exist_ok_def set_child_def remove_child_def save_failed_result_def
  save_strategy_result_def cleanup_failed_strategy_directory_def complete_result_def
  has_json_suffix_def failed_file_def

lemmas str_defs = str_split_def str_strip_def space_width_def whitespace_def str_contains_def sublist_code
  endswith_def suffix_to_prefix startswith_def newline_def box_def


lemmas demo_defs = demo_env_def demo_world_def demo_root_def demo_tool_def demo_loads_def
  demo_dumps_def demo_int_def demo_float_def demo_summary_def demo_row_def

lemma demo_slow:
  "run_backtest_worker demo_env demo_bt demo_world ''Slow'' =
     (None, \<lparr>fs = Some (Dir [(''individual_results'',
                Dir [(''A_result.json'', File ''A-record''),
                     (''Slow_failed.json'', File ''Slow-record'')])]),
             calls = [backtest_cmd demo_bt ''5m'' ''Slow'']\<rparr>)"
  by (simp add: run_backtest_worker_def worker_body_def load_existing_result_def demo_defs
      item_def backtest_cmd_def fs_defs raised_failure_def py_get_def str_defs Let_def)

lemma demo_slow_launched: "launched demo_env demo_bt demo_world ''Slow'' = Some TimeoutExpired"
  by (simp add: launched_def demo_defs item_def backtest_cmd_def fs_defs)

lemma demo_broken:
  "run_backtest_worker demo_env demo_bt bare_world ''Broken'' =
     (None, \<lparr>fs = Some (Dir []), calls = [backtest_cmd demo_bt ''5m'' ''Broken'']\<rparr>)"
  by (simp add: run_backtest_worker_def worker_body_def load_existing_result_def demo_defs
      bare_world_def item_def backtest_cmd_def fs_defs Let_def)

lemma demo_broken_launched:
  "launched demo_env demo_bt bare_world ''Broken'' =
     Some (Completed 1 [] ''ImportError: No module named talib'')"
  by (simp add: launched_def demo_defs bare_world_def item_def backtest_cmd_def fs_defs)



subsection \<open>Cleanup of a failed strategy's directory\<close>

lemma child_remove_same: "child (remove_child (Some (Dir es)) n) n = None"
  by (simp add: child_def remove_child_def delete_conv')

lemma child_remove_other: "m \<noteq> n \<Longrightarrow> child (remove_child p n) m = child p m"
  by (auto simp: child_def remove_child_def split: option.splits node.splits)

lemma child_cleanup_other:
  "m \<noteq> n \<Longrightarrow> child (cleanup_failed_strategy_directory rdir n) m = child rdir m"
  by (auto simp: cleanup_failed_strategy_directory_def child_remove_other Let_def
      split: option.splits node.splits)

lemma child_Some_Dir: "child p n = Some x \<Longrightarrow> \<exists>es. p = Some (Dir es)"
  by (auto simp: child_def split: option.splits node.splits)

text \<open>
  C8. When the strategy's directory is empty or holds no complete result (no regular file
  with the suffix \<^verbatim>\<open>.json\<close>, \<^verbatim>\<open>backtest\<close> in its name and more than 1000 bytes),
  \<open>cleanup_failed_strategy_directory\<close> removes it; when the directory holds a complete
  result, the results directory is left exactly as it is. The directories of the other
  strategies are never touched.
\<close>

theorem cleanup_failed_strategy_directory_safe:
  "(child rdir n = Some (Dir files) \<and> \<not> list_ex complete_result files \<longrightarrow>
      child (cleanup_failed_strategy_directory rdir n) n = None) \<and>
   (child rdir n = Some (Dir files) \<and> list_ex complete_result files \<longrightarrow>
      cleanup_failed_strategy_directory rdir n = rdir) \<and>
   (m \<noteq> n \<longrightarrow> child (cleanup_failed_strategy_directory rdir n) m = child rdir m)"
proof (intro conjI impI)
  assume a: "child rdir n = Some (Dir files) \<and> \<not> list_ex complete_result files"
  then obtain es where "rdir = Some (Dir es)" using child_Some_Dir by blast
  with a show "child (cleanup_failed_strategy_directory rdir n) n = None"
    by (simp add: cleanup_failed_strategy_directory_def child_remove_same)
next
  assume a: "child rdir n = Some (Dir files) \<and> list_ex complete_result files"
  then have "files \<noteq> []" by auto
  with a show "cleanup_failed_strategy_directory rdir n = rdir"
    by (simp add: cleanup_failed_strategy_directory_def)
next
  assume "m \<noteq> n"
  then show "child (cleanup_failed_strategy_directory rdir n) m = child rdir m"
    by (rule child_cleanup_other)
qed

theorem cleanup_failed_strategy_directory_safe_witness:
  "child demo_artifacts ''Slow'' =
     Some (Dir [(''Slow_backtest.json'', File ''partial''), (''Slow_output.txt'', File [])]) \<and>
   \<not> list_ex complete_result
       [(''Slow_backtest.json'', File ''partial''), (''Slow_output.txt'', File [])] \<and>
   child (cleanup_failed_strategy_directory demo_artifacts ''Slow'') ''Slow'' = None \<and>
   child (cleanup_failed_strategy_directory demo_artifacts ''Slow'') ''Done'' =
     child demo_artifacts ''Done'' \<and>
   child demo_artifacts ''Done'' =
     Some (Dir [(''Done_backtest.json'', File (replicate 1500 (CHR ''x'')))]) \<and>
   list_ex complete_result [(''Done_backtest.json'', File (replicate 1500 (CHR ''x'')))] \<and>
   cleanup_failed_strategy_directory demo_artifacts ''Done'' = demo_artifacts"
proof -
  have s: "child demo_artifacts ''Slow'' =
     Some (Dir [(''Slow_backtest.json'', File ''partial''), (''Slow_output.txt'', File [])])"
    by (simp add: demo_artifacts_def child_def)
  have sp: "\<not> list_ex complete_result
       [(''Slow_backtest.json'', File ''partial''), (''Slow_output.txt'', File [])]"
    by (simp add: complete_result_def has_json_suffix_def str_defs)
  have d: "child demo_artifacts ''Done'' =
     Some (Dir [(''Done_backtest.json'', File (replicate 1500 (CHR ''x'')))])"
    by (simp add: demo_artifacts_def child_def)
  have dc: "list_ex complete_result
      [(''Done_backtest.json'', File (replicate 1500 (CHR ''x'')))]"
    by (simp add: complete_result_def has_json_suffix_def str_defs)
  have ne: "''Done'' \<noteq> ''Slow''" by simp
  from cleanup_failed_strategy_directory_safe
    [where rdir = demo_artifacts and n = "''Slow''" and m = "''Done''"
      and files = "[(''Slow_backtest.json'', File ''partial''), (''Slow_output.txt'', File [])]"]
    s sp ne
  have r1: "child (cleanup_failed_strategy_directory demo_artifacts ''Slow'') ''Slow'' = None \<and>
      child (cleanup_failed_strategy_directory demo_artifacts ''Slow'') ''Done'' =
        child demo_artifacts ''Done''"
    by blast
  from cleanup_failed_strategy_directory_safe
    [where rdir = demo_artifacts and n = "''Done''" and m = "''Done''"
      and files = "[(''Done_backtest.json'', File (replicate 1500 (CHR ''x'')))]"]
    d dc
  have r2: "cleanup_failed_strategy_directory demo_artifacts ''Done'' = demo_artifacts"
    by blast
  from s sp d dc r1 r2 show ?thesis by blast
qed

subsection \<open>The cached result of a worker\<close>

lemma window_truthy: "window_matches bt r \<Longrightarrow> truthy E r"
  by (cases r) (auto simp: window_matches_def config_field_def py_get_def)

lemma load_truthy: "load_existing_result l bt d n = Some r \<Longrightarrow> truthy E r"
  by (auto simp: load_existing_result_stored window_truthy split: option.splits if_splits)

lemma worker_cache_hit:
  "load_existing_result (json_load E) bt (fs w) n = Some r \<Longrightarrow>
   run_backtest_worker E bt w n = (Some r, w)"
  by (simp add: run_backtest_worker_def worker_body_def load_truthy)

text \<open>
  C2. When the persisted record of a strategy is valid under the active configuration, a
  call of \<open>run_backtest_worker\<close> returns that record and leaves the world as it is: no
  external command is run and no file is written, so the stored record, with its duration
  and timestamp, is the same after the call.
\<close>

theorem run_backtest_worker_cached:
  "stored_result (json_load E) (fs w) n = Some r \<and> window_matches bt r \<longrightarrow>
     run_backtest_worker E bt w n = (Some r, w) \<and>
     calls (snd (run_backtest_worker E bt w n)) = calls w \<and>
     stored_result (json_load E) (fs (snd (run_backtest_worker E bt w n))) n = Some r"
proof
  assume a: "stored_result (json_load E) (fs w) n = Some r \<and> window_matches bt r"
  then have "load_existing_result (json_load E) bt (fs w) n = Some r"
    by (simp add: load_existing_result_stored)
  then have "run_backtest_worker E bt w n = (Some r, w)"
    by (rule worker_cache_hit)
  with a show "run_backtest_worker E bt w n = (Some r, w) \<and>
     calls (snd (run_backtest_worker E bt w n)) = calls w \<and>
     stored_result (json_load E) (fs (snd (run_backtest_worker E bt w n))) n = Some r"
    by simp
qed

theorem run_backtest_worker_cached_witness:
  "stored_result (json_load demo_env) (fs demo_world) ''A'' = Some demo_record \<and>
   window_matches demo_bt demo_record \<and>
   run_backtest_worker demo_env demo_bt demo_world ''A'' = (Some demo_record, demo_world) \<and>
   calls demo_world = []"
proof -
  have st: "stored_result (json_load demo_env) (fs demo_world) ''A'' = Some demo_record"
    using demo_stored by (simp add: demo_env_def demo_world_def)
  from run_backtest_worker_cached
    [where E = demo_env and w = demo_world and n = "''A''" and r = demo_record
      and bt = demo_bt] st demo_window
  have "run_backtest_worker demo_env demo_bt demo_world ''A'' = (Some demo_record, demo_world)"
    by blast
  with st demo_window show ?thesis by (simp add: demo_world_def)
qed

subsection \<open>The failure paths of a worker\<close>

lemma write_file_child:
  "write_file p f bytes = Some d \<Longrightarrow> child (Some d) f = Some (File bytes)"
  by (auto simp: write_file_def child_def update_conv' split: option.splits node.splits)

lemma child_set_child_same: "p = Some (Dir es) \<Longrightarrow> child (set_child p n x) n = Some x"
  by (simp add: child_def set_child_def update_conv')

lemma save_failed_result_persists:
  assumes "write_file (individual_results_dir d) (n @ ''_failed.json'') (json_dump E r) \<noteq> None"
  shows "failed_file (save_failed_result E d n r) n = Some (File (json_dump E r))"
proof -
  from assms obtain dn where
    w: "write_file (individual_results_dir d) (n @ ''_failed.json'') (json_dump E r) = Some dn"
    by blast
  then have "individual_results_dir d \<noteq> None"
    by (auto simp: write_file_def split: option.splits)
  then obtain es where d: "d = Some (Dir es)"
    unfolding individual_results_dir_def using child_Some_Dir by blast
  from w d show ?thesis
    by (simp add: failed_file_def save_failed_result_def individual_results_dir_def
        child_set_child_same write_file_child)
qed

lemma failed_file_cleanup:
  "n \<noteq> ''individual_results'' \<Longrightarrow>
   failed_file (cleanup_failed_strategy_directory d n) n = failed_file d n"
  using child_cleanup_other [of "''individual_results''" n d]
  by (simp add: failed_file_def individual_results_dir_def)

lemma timeout_text_contains: "str_contains ''Timeout'' (timeout_text bt)"
  unfolding str_contains_def timeout_text_def
  by (rule prefix_imp_sublist) simp

lemma failure_record_exit: "failure_record E n (exit_failure E bt n tf out err)"
  by (simp add: failure_record_def exit_failure_def py_get_def error_of_def)

lemma failure_record_raised: "failure_record E n (raised_failure E bt n e)"
  by (simp add: failure_record_def raised_failure_def py_get_def error_of_def)

lemma error_of_raised: "error_of (raised_failure E bt n e) = Some e"
  by (simp add: raised_failure_def py_get_def error_of_def)

lemma worker_failure_shape:
  assumes "run_backtest_worker E bt w n = (None, w')"
  shows "\<exists>r. failure_record E n r \<and>
     fs w' = cleanup_failed_strategy_directory
               (save_failed_result E (dir_at_failure E bt w n) n r) n \<and>
     (launched E bt w n = Some TimeoutExpired \<longrightarrow> error_of r = Some (timeout_text bt))"
  using assms failure_record_exit failure_record_raised error_of_raised
  unfolding run_backtest_worker_def worker_body_def launched_def dir_at_failure_def
  apply (auto simp: Let_def
      split: option.splits if_splits prod.splits proc_result.splits sum.splits raised.splits)
               apply blast+
  done

lemma worker_success_cause:
  assumes "run_backtest_worker E bt w n = (Some r, w')"
  shows "load_existing_result (json_load E) bt (fs w) n = Some r \<or>
     (\<exists>out err. launched E bt w n = Some (Completed 0 out err))"
  using assms
  unfolding run_backtest_worker_def worker_body_def launched_def
  by (auto simp: Let_def
      split: option.splits if_splits prod.splits proc_result.splits sum.splits raised.splits)

lemma demo_lost:
  "run_backtest_worker failing_env demo_bt demo_world ''individual_results'' =
     (None, \<lparr>fs = Some (Dir []), calls = [backtest_cmd demo_bt ''5m'' ''individual_results'']\<rparr>)"
  by (simp add: run_backtest_worker_def worker_body_def load_existing_result_def failing_env_def
      demo_defs item_def backtest_cmd_def fs_defs exit_failure_def py_get_def str_defs Let_def)

lemma demo_lost_dir:
  "dir_at_failure failing_env demo_bt demo_world ''individual_results'' = demo_root"
  by (simp add: dir_at_failure_def failing_env_def demo_defs fs_defs)

text \<open>
  C4, as the code has it, for an identifier that names an entry of the results directory.
  A call returns a result only on a cache hit or when the subprocess exits with code 0:
  after a nonzero exit code, a timeout or a raised exception it returns \<open>None\<close>. Every
  call that returns \<open>None\<close> builds a failure record with the identifier, an error text and
  the timestamp, tries to write it to \<^verbatim>\<open>individual_results/<name>_failed.json\<close> in the
  results directory as it is then, and runs the cleanup of the strategy's directory on the
  outcome. When that write succeeds and the identifier is not \<^verbatim>\<open>individual_results\<close>
  itself, the record is in the file after the call; a write that raises is logged and the
  cleanup runs on the directory as it was, no record written. After a timeout the error
  text contains \<^verbatim>\<open>Timeout\<close>.
\<close>

theorem run_backtest_worker_failure:
  "plain_name n \<longrightarrow>
   (run_backtest_worker E bt w n = (Some r, w') \<longrightarrow>
      load_existing_result (json_load E) bt (fs w) n = Some r \<or>
      (\<exists>out err. launched E bt w n = Some (Completed 0 out err))) \<and>
   (run_backtest_worker E bt w n = (None, w') \<longrightarrow>
      (\<exists>rec. failure_record E n rec \<and>
         fs w' = cleanup_failed_strategy_directory
                   (save_failed_result E (dir_at_failure E bt w n) n rec) n \<and>
         (write_file (individual_results_dir (dir_at_failure E bt w n)) (n @ ''_failed.json'')
            (json_dump E rec) \<noteq> None \<and> n \<noteq> ''individual_results'' \<longrightarrow>
            failed_file (fs w') n = Some (File (json_dump E rec))) \<and>
         (write_file (individual_results_dir (dir_at_failure E bt w n)) (n @ ''_failed.json'')
            (json_dump E rec) = None \<longrightarrow>
            fs w' = cleanup_failed_strategy_directory (dir_at_failure E bt w n) n) \<and>
         (launched E bt w n = Some TimeoutExpired \<longrightarrow>
            (\<exists>e. error_of rec = Some e \<and> str_contains ''Timeout'' e))))"
proof (intro conjI impI)
  assume "run_backtest_worker E bt w n = (Some r, w')"
  then show "load_existing_result (json_load E) bt (fs w) n = Some r \<or>
      (\<exists>out err. launched E bt w n = Some (Completed 0 out err))"
    by (rule worker_success_cause)
next
  let ?d = "dir_at_failure E bt w n"
  assume "run_backtest_worker E bt w n = (None, w')"
  then obtain rec where
    fr: "failure_record E n rec" and
    fs: "fs w' = cleanup_failed_strategy_directory (save_failed_result E ?d n rec) n" and
    to: "launched E bt w n = Some TimeoutExpired \<longrightarrow> error_of rec = Some (timeout_text bt)"
    using worker_failure_shape by blast
  have persisted:
    "write_file (individual_results_dir ?d) (n @ ''_failed.json'') (json_dump E rec) \<noteq> None \<and>
     n \<noteq> ''individual_results'' \<longrightarrow>
       failed_file (fs w') n = Some (File (json_dump E rec))"
  proof
    assume h: "write_file (individual_results_dir ?d) (n @ ''_failed.json'') (json_dump E rec) \<noteq> None \<and>
      n \<noteq> ''individual_results''"
    from h have "failed_file (fs w') n = failed_file (save_failed_result E ?d n rec) n"
      unfolding fs by (simp add: failed_file_cleanup)
    also from h have "\<dots> = Some (File (json_dump E rec))"
      by (simp add: save_failed_result_persists)
    finally show "failed_file (fs w') n = Some (File (json_dump E rec))" .
  qed
  have unwritten:
    "write_file (individual_results_dir ?d) (n @ ''_failed.json'') (json_dump E rec) = None \<longrightarrow>
       fs w' = cleanup_failed_strategy_directory ?d n"
    using fs by (simp add: save_failed_result_def)
  have timeout: "launched E bt w n = Some TimeoutExpired \<longrightarrow>
      (\<exists>e. error_of rec = Some e \<and> str_contains ''Timeout'' e)"
    using to timeout_text_contains by blast
  show "\<exists>rec. failure_record E n rec \<and>
         fs w' = cleanup_failed_strategy_directory (save_failed_result E ?d n rec) n \<and>
         (write_file (individual_results_dir ?d) (n @ ''_failed.json'')
            (json_dump E rec) \<noteq> None \<and> n \<noteq> ''individual_results'' \<longrightarrow>
            failed_file (fs w') n = Some (File (json_dump E rec))) \<and>
         (write_file (individual_results_dir ?d) (n @ ''_failed.json'')
            (json_dump E rec) = None \<longrightarrow>
            fs w' = cleanup_failed_strategy_directory ?d n) \<and>
         (launched E bt w n = Some TimeoutExpired \<longrightarrow>
            (\<exists>e. error_of rec = Some e \<and> str_contains ''Timeout'' e))"
    by (rule exI [of _ rec]) (intro conjI fr fs persisted unwritten timeout)
qed

theorem run_backtest_worker_failure_witness:
  "plain_name ''Slow'' \<and> ''Slow'' \<noteq> ''individual_results'' \<and>
   launched demo_env demo_bt demo_world ''Slow'' = Some TimeoutExpired \<and>
   fst (run_backtest_worker demo_env demo_bt demo_world ''Slow'') = None \<and>
   failed_file (fs (snd (run_backtest_worker demo_env demo_bt demo_world ''Slow''))) ''Slow''
     = Some (File ''Slow-record'') \<and>
   child (fs (snd (run_backtest_worker demo_env demo_bt demo_world ''Slow''))) ''Slow'' = None \<and>
   (\<exists>rec. failure_record demo_env ''Slow'' rec \<and>
      fs (snd (run_backtest_worker demo_env demo_bt demo_world ''Slow'')) =
        cleanup_failed_strategy_directory
          (save_failed_result demo_env (dir_at_failure demo_env demo_bt demo_world ''Slow'')
             ''Slow'' rec) ''Slow'' \<and>
      failed_file (fs (snd (run_backtest_worker demo_env demo_bt demo_world ''Slow''))) ''Slow''
        = Some (File (json_dump demo_env rec)) \<and>
      (\<exists>e. error_of rec = Some e \<and> str_contains ''Timeout'' e))"
proof -
  let ?w' = "snd (run_backtest_worker demo_env demo_bt demo_world ''Slow'')"
  let ?d = "dir_at_failure demo_env demo_bt demo_world ''Slow''"
  have pn: "plain_name ''Slow'' \<and> ''Slow'' \<noteq> ''individual_results''"
    by (simp add: plain_name_def)
  have run: "run_backtest_worker demo_env demo_bt demo_world ''Slow'' = (None, ?w')"
    by (simp add: demo_slow)
  have ff: "failed_file (fs ?w') ''Slow'' = Some (File ''Slow-record'')"
    by (simp add: demo_slow failed_file_def individual_results_dir_def child_def)
  have gone: "child (fs ?w') ''Slow'' = None"
    by (simp add: demo_slow child_def)
  have wr: "\<And>bytes. write_file (individual_results_dir ?d) (''Slow'' @ ''_failed.json'') bytes
      \<noteq> None"
    by (simp add: dir_at_failure_def demo_env_def demo_world_def demo_root_def demo_tool_def
        item_def backtest_cmd_def fs_defs)
  have p1: "plain_name ''Slow''"
    using pn by (rule conjunct1)
  have p2: "''Slow'' \<noteq> ''individual_results''"
    using pn by (rule conjunct2)
  note inst = run_backtest_worker_failure
    [where E = demo_env and bt = demo_bt and w = demo_world and n = "''Slow''" and w' = ?w'
      and r = JNull, THEN mp, OF p1, THEN conjunct2, THEN mp, OF run]
  obtain rec where r:
    "failure_record demo_env ''Slow'' rec \<and>
      fs ?w' = cleanup_failed_strategy_directory (save_failed_result demo_env ?d ''Slow'' rec)
        ''Slow'' \<and>
      (write_file (individual_results_dir ?d) (''Slow'' @ ''_failed.json'')
         (json_dump demo_env rec) \<noteq> None \<and> ''Slow'' \<noteq> ''individual_results'' \<longrightarrow>
         failed_file (fs ?w') ''Slow'' = Some (File (json_dump demo_env rec))) \<and>
      (write_file (individual_results_dir ?d) (''Slow'' @ ''_failed.json'')
         (json_dump demo_env rec) = None \<longrightarrow>
         fs ?w' = cleanup_failed_strategy_directory ?d ''Slow'') \<and>
      (launched demo_env demo_bt demo_world ''Slow'' = Some TimeoutExpired \<longrightarrow>
         (\<exists>e. error_of rec = Some e \<and> str_contains ''Timeout'' e))"
    using inst ..
  note r1 = r [THEN conjunct1]
  note r2 = r [THEN conjunct2, THEN conjunct1]
  note r3 = r [THEN conjunct2, THEN conjunct2, THEN conjunct1]
  note r4 = r [THEN conjunct2, THEN conjunct2, THEN conjunct2, THEN conjunct2]
  from wr [of "json_dump demo_env rec"] p2
  have "write_file (individual_results_dir ?d) (''Slow'' @ ''_failed.json'')
        (json_dump demo_env rec) \<noteq> None \<and> ''Slow'' \<noteq> ''individual_results''"
    by (rule conjI)
  with r3
  have r5: "failed_file (fs ?w') ''Slow'' = Some (File (json_dump demo_env rec))"
    by (rule mp)
  from r4 demo_slow_launched
  have r6: "\<exists>e. error_of rec = Some e \<and> str_contains ''Timeout'' e"
    by (rule mp)
  have ex: "\<exists>rec. failure_record demo_env ''Slow'' rec \<and>
      fs ?w' = cleanup_failed_strategy_directory (save_failed_result demo_env ?d ''Slow'' rec)
        ''Slow'' \<and>
      failed_file (fs ?w') ''Slow'' = Some (File (json_dump demo_env rec)) \<and>
      (\<exists>e. error_of rec = Some e \<and> str_contains ''Timeout'' e)"
    by (rule exI [of _ rec]) (intro conjI r1 r2 r5 r6)
  have none: "fst (run_backtest_worker demo_env demo_bt demo_world ''Slow'') = None"
    by (simp add: demo_slow)
  show ?thesis
    by (intro conjI p1 p2 demo_slow_launched none ff gone ex)
qed

text \<open>
  C4 as stated fails: when the write of the failure record raises, the exception is
  caught and logged, and the failed call leaves no record. Here the results directory has
  no \<^verbatim>\<open>individual_results\<close>, and the subprocess exits with code 1. A record that is written
  can be lost as well: for the identifier \<^verbatim>\<open>individual_results\<close> the directory the cleanup
  removes is the one that holds the record just written, and the cached results with it.
\<close>

theorem run_backtest_worker_unrecorded_counterexample:
  "launched demo_env demo_bt bare_world ''Broken'' =
     Some (Completed 1 [] ''ImportError: No module named talib'') \<and>
   fst (run_backtest_worker demo_env demo_bt bare_world ''Broken'') = None \<and>
   fs (snd (run_backtest_worker demo_env demo_bt bare_world ''Broken'')) = Some (Dir []) \<and>
   failed_file (fs (snd (run_backtest_worker demo_env demo_bt bare_world ''Broken'')))
     ''Broken'' = None \<and>
   stored_result (json_load failing_env) (fs demo_world) ''A'' = Some demo_record \<and>
   fst (run_backtest_worker failing_env demo_bt demo_world ''individual_results'') = None \<and>
   write_file
     (individual_results_dir (dir_at_failure failing_env demo_bt demo_world ''individual_results''))
     ''individual_results_failed.json'' ''individual_results-record'' \<noteq> None \<and>
   failed_file (fs (snd (run_backtest_worker failing_env demo_bt demo_world
     ''individual_results''))) ''individual_results'' = None \<and>
   stored_result (json_load failing_env)
     (fs (snd (run_backtest_worker failing_env demo_bt demo_world ''individual_results'')))
     ''A'' = None"
proof -
  have a1: "launched demo_env demo_bt bare_world ''Broken'' =
       Some (Completed 1 [] ''ImportError: No module named talib'')"
    by (rule demo_broken_launched)
  have a2: "fst (run_backtest_worker demo_env demo_bt bare_world ''Broken'') = None"
    by (simp add: demo_broken)
  have a3: "fs (snd (run_backtest_worker demo_env demo_bt bare_world ''Broken'')) = Some (Dir [])"
    by (simp add: demo_broken)
  have a4: "failed_file (fs (snd (run_backtest_worker demo_env demo_bt bare_world ''Broken'')))
       ''Broken'' = None"
    by (simp add: demo_broken failed_file_def individual_results_dir_def child_def)
  have b: "stored_result (json_load failing_env) (fs demo_world) ''A'' = Some demo_record"
    using demo_stored by (simp add: failing_env_def demo_env_def demo_world_def)
  have c: "fst (run_backtest_worker failing_env demo_bt demo_world ''individual_results'') = None"
    by (simp add: demo_lost)
  have d: "write_file
     (individual_results_dir (dir_at_failure failing_env demo_bt demo_world ''individual_results''))
     ''individual_results_failed.json'' ''individual_results-record'' \<noteq> None"
    by (simp add: demo_lost_dir demo_root_def fs_defs)
  have e: "failed_file (fs (snd (run_backtest_worker failing_env demo_bt demo_world
     ''individual_results''))) ''individual_results'' = None"
    by (simp add: demo_lost failed_file_def individual_results_dir_def child_def)
  have f: "stored_result (json_load failing_env)
     (fs (snd (run_backtest_worker failing_env demo_bt demo_world ''individual_results'')))
     ''A'' = None"
    by (simp add: demo_lost stored_result_def fs_defs)
  show ?thesis by (intro conjI a1 a2 a3 a4 b c d e f)
qed

subsection \<open>Parsing the output of a backtest\<close>























subsection \<open>The reconciliation scan\<close>

lemma parse_truthy: "parse_strategy_json_data E d files = Some m \<Longrightarrow> truthy E m"
  by (auto simp: parse_strategy_json_data_def split: option.splits if_splits json.splits)

lemma scan_result_dirs_distinct:
  "distinct (map fst (snd acc)) \<Longrightarrow> distinct (map fst (snd (scan_result_dirs E es acc)))"
  by (induction E es acc rule: scan_result_dirs.induct)
    (auto simp: distinct_update split: option.splits)

lemma scan_result_dirs_other:
  "d \<notin> fst ` set es \<Longrightarrow>
   map_of (snd (scan_result_dirs E es acc)) (JStr d) = map_of (snd acc) (JStr d)"
  by (induction E es acc rule: scan_result_dirs.induct)
    (auto simp: update_conv' split: option.splits)

lemma entry_unique:
  "distinct (map fst es) \<Longrightarrow> (d, a) \<in> set es \<Longrightarrow> (d, b) \<in> set es \<Longrightarrow> a = b"
  by (meson eq_key_imp_eq_value)

lemma scan_result_dirs_lookup:
  "distinct (map fst es) \<Longrightarrow> (d, Dir files) \<in> set es \<Longrightarrow> d \<noteq> ''individual_results'' \<Longrightarrow>
   parse_strategy_json_data E d files = Some m \<Longrightarrow>
   map_of (snd (scan_result_dirs E es acc)) (JStr d) = Some m"
proof (induction es arbitrary: acc)
  case Nil
  then show ?case by simp
next
  case (Cons e rest)
  obtain name n where e: "e = (name, n)" by (cases e)
  obtain names results where acc: "acc = (names, results)" by (cases acc)
  from Cons.prems(1) e have dr: "distinct (map fst rest)" and nr: "name \<notin> fst ` set rest"
    by auto
  show ?case
  proof (cases "name = d")
    case True
    have "(d, n) \<in> set (e # rest)" using e True by simp
    with Cons.prems(1,2) have n: "n = Dir files" using entry_unique by metis
    have nd: "d \<notin> fst ` set rest" using nr True by simp
    have t: "truthy E m" using Cons.prems(4) by (rule parse_truthy)
    show ?thesis
      using e acc True n nd t Cons.prems(3,4)
      by (simp add: scan_result_dirs_other update_conv')
  next
    case False
    with Cons.prems(2) e have mem: "(d, Dir files) \<in> set rest" by auto
    have ih: "\<And>acc'. map_of (snd (scan_result_dirs E rest acc')) (JStr d) = Some m"
      using Cons.IH [OF dr mem Cons.prems(3,4)] .
    show ?thesis
      using e acc ih by (cases n) (simp_all split: option.splits)
  qed
qed

lemma scan_result_files_distinct:
  "distinct (map fst (snd acc)) \<Longrightarrow> distinct (map fst (snd (scan_result_files E cfs acc)))"
  by (induction E cfs acc rule: scan_result_files.induct)
    (auto simp: distinct_update split: option.splits)

lemma scan_result_files_keeps:
  "k \<in> fst ` set (snd acc) \<Longrightarrow>
   map_of (snd (scan_result_files E cfs acc)) k = map_of (snd acc) k"
proof (induction cfs arbitrary: acc)
  case Nil
  then show ?case by simp
next
  case (Cons f rest)
  obtain names results where acc: "acc = (names, results)" by (cases acc)
  with Cons.prems have k: "k \<in> fst ` set results" by simp
  show ?case
  proof (cases "endswith (fst f) ''_result.json''")
    case False
    with acc Cons.IH [of acc] Cons.prems show ?thesis by simp
  next
    case True
    show ?thesis
    proof (cases "cached_record E ''_result'' f")
      case None
      with True acc Cons.IH [of acc] Cons.prems show ?thesis by simp
    next
      case (Some r)
      obtain a b where r: "r = (a, b)" by (cases r)
      show ?thesis
      proof (cases "hashable a \<and> a \<notin> fst ` set results")
        case False
        with True Some r acc Cons.IH [of acc] Cons.prems show ?thesis by auto
      next
        case add: True
        with k have ne: "k \<noteq> a" by blast
        have k': "k \<in> fst ` set (snd (names @ [a], AList.update a b results))"
          using k by (simp add: dom_update)
        from Cons.IH [OF k'] ne
        have "map_of (snd (scan_result_files E rest (names @ [a], AList.update a b results))) k
            = map_of results k"
          by (simp add: update_conv')
        with True Some r acc add show ?thesis by simp
      qed
    qed
  qed
qed


lemma collect_results_eq:
  assumes "collect_all_results E (Some (Dir entries)) = Inr (results, failed)"
  shows "results = snd (scan_result_files E (cache_entries (Some (Dir entries)))
           (scan_result_dirs E entries ([], [])))"
    and "failed = scan_failed_files E (cache_entries (Some (Dir entries)))
           (scan_failed_dirs E entries [])"
  using assms
  by (auto simp: collect_all_results_def discover_all_successful_strategies_def
      get_failed_strategies_def split: sum.splits prod.splits if_splits)

lemma scan_result_dirs_step:
  "scan_result_dirs E (e # rest) (names, results) =
     (case dir_metrics E e of
        None \<Rightarrow> scan_result_dirs E rest (names, results)
      | Some m \<Rightarrow>
          scan_result_dirs E rest (names @ [JStr (fst e)], AList.update (JStr (fst e)) m results))"
proof -
  obtain name n where e: "e = (name, n)" by (cases e)
  show ?thesis
  proof (cases n)
    case (File bytes)
    with e show ?thesis by (simp add: dir_metrics_def)
  next
    case (Dir files)
    with e show ?thesis
      using parse_truthy [of E name files]
      by (auto simp: dir_metrics_def split: option.splits)
  qed
qed

lemma scan_failed_dirs_step:
  "scan_failed_dirs E (e # rest) acc =
     (if dir_failed E e
      then scan_failed_dirs E rest
             (acc @ [JObj [(''strategy'', JStr (fst e)), (''error'', JStr ''Backtest failed''),
                           (''failed_timestamp'', JStr (now_isoformat E))]])
      else scan_failed_dirs E rest acc)"
proof -
  obtain name n where e: "e = (name, n)" by (cases e)
  show ?thesis
  proof (cases n)
    case (File bytes)
    with e show ?thesis by (simp add: dir_failed_def)
  next
    case (Dir files)
    with e show ?thesis
      using parse_truthy [of E name files]
      by (auto simp: dir_failed_def dir_metrics_def split: option.splits)
  qed
qed

lemma scan_result_dirs_keys:
  "fst ` set (snd (scan_result_dirs E es acc)) \<subseteq>
     fst ` set (snd acc) \<union> JStr ` set (parsable_dirs E es)"
proof (induction es arbitrary: acc)
  case Nil
  show ?case by simp
next
  case (Cons e rest)
  obtain names results where acc: "acc = (names, results)" by (cases acc)
  show ?case
  proof (cases "dir_metrics E e")
    case None
    with acc Cons [of "(names, results)"] show ?thesis
      by (auto simp: scan_result_dirs_step parsable_dirs_def dir_parses_def)
  next
    case (Some m)
    with acc Cons [of "(names @ [JStr (fst e)], AList.update (JStr (fst e)) m results)"]
    show ?thesis
      by (auto simp: scan_result_dirs_step parsable_dirs_def dir_parses_def dom_update)
  qed
qed

lemma cached_records_Cons:
  "cached_records E marker (f # rest) =
     (if endswith (fst f) (marker @ ''.json'')
      then (case cached_record E marker f of None \<Rightarrow> [] | Some r \<Rightarrow> [r]) else []) @
     cached_records E marker rest"
  by (simp add: cached_records_def)

lemma scan_result_files_keys:
  "fst ` set (snd (scan_result_files E cfs acc)) \<subseteq>
     fst ` set (snd acc) \<union> fst ` set (cached_records E ''_result'' cfs)"
proof (induction cfs arbitrary: acc)
  case Nil
  show ?case by simp
next
  case (Cons f rest)
  obtain names results where acc: "acc = (names, results)" by (cases acc)
  show ?case
  proof (cases "endswith (fst f) ''_result.json''")
    case False
    with acc Cons [of acc] show ?thesis by (auto simp: cached_records_Cons)
  next
    case True
    show ?thesis
    proof (cases "cached_record E ''_result'' f")
      case None
      with True acc Cons [of acc] show ?thesis by (auto simp: cached_records_Cons)
    next
      case (Some r)
      obtain a b where r: "r = (a, b)" by (cases r)
      show ?thesis
      proof (cases "hashable a \<and> a \<notin> fst ` set results")
        case False
        with True Some r acc Cons [of acc] show ?thesis
          by (auto simp: cached_records_Cons)
      next
        case add: True
        have "scan_result_files E (f # rest) acc =
            scan_result_files E rest (names @ [a], AList.update a b results)"
          using True Some r acc add by simp
        with Cons [of "(names @ [a], AList.update a b results)"] True Some r acc
        show ?thesis
          by (auto simp: cached_records_Cons dom_update)
      qed
    qed
  qed
qed

lemma failure_id_dir_record:
  "failure_id (JObj [(''strategy'', JStr name), (''error'', e), (''failed_timestamp'', t)]) = JStr name"
  by (simp add: failure_id_def py_get_def)

lemma scan_failed_dirs_ids:
  "failure_id ` set (scan_failed_dirs E es acc) \<subseteq>
     failure_id ` set acc \<union> JStr ` set (failed_dirs E es)"
proof (induction es arbitrary: acc)
  case Nil
  show ?case by simp
next
  case (Cons e rest)
  show ?case
  proof (cases "dir_failed E e")
    case False
    with Cons [of acc] show ?thesis
      by (auto simp: scan_failed_dirs_step failed_dirs_def)
  next
    case True
    with Cons [of "acc @ [JObj [(''strategy'', JStr (fst e)), (''error'', JStr ''Backtest failed''),
                           (''failed_timestamp'', JStr (now_isoformat E))]]"]
    show ?thesis
      by (auto simp: scan_failed_dirs_step failed_dirs_def failure_id_dir_record)
  qed
qed

lemma scan_failed_files_ids:
  "failure_id ` set (scan_failed_files E cfs acc) \<subseteq>
     failure_id ` set acc \<union> (failure_id \<circ> snd) ` set (cached_records E ''_failed'' cfs)"
proof (induction cfs arbitrary: acc)
  case Nil
  show ?case by simp
next
  case (Cons f rest)
  show ?case
  proof (cases "endswith (fst f) ''_failed.json''")
    case False
    with Cons [of acc] show ?thesis by (auto simp: cached_records_Cons)
  next
    case True
    show ?thesis
    proof (cases "cached_record E ''_failed'' f")
      case None
      with True Cons [of acc] show ?thesis by (auto simp: cached_records_Cons)
    next
      case (Some r)
      obtain a b where r: "r = (a, b)" by (cases r)
      show ?thesis
      proof (cases "list_ex (\<lambda>fr. failure_id fr = a) acc")
        case present: True
        with True Some r Cons [of acc] show ?thesis
          by (auto simp: cached_records_Cons)
      next
        case False
        with True Some r Cons [of "acc @ [b]"] show ?thesis
          by (auto simp: cached_records_Cons)
      qed
    qed
  qed
qed

lemma parsable_dirs_mem:
  assumes "name \<in> set (parsable_dirs E es)"
  shows "\<exists>n. (name, n) \<in> set es \<and> dir_metrics E (name, n) \<noteq> None"
  using assms by (auto simp: parsable_dirs_def dir_parses_def)

lemma failed_dirs_mem:
  assumes "name \<in> set (failed_dirs E es)"
  shows "\<exists>n. (name, n) \<in> set es \<and> dir_metrics E (name, n) = None"
proof -
  from assms obtain n where n: "(name, n) \<in> set es" "dir_failed E (name, n)"
    by (auto simp: failed_dirs_def)
  from n(2) have "dir_metrics E (name, n) = None"
    by (cases n) (simp_all add: dir_failed_def)
  with n(1) show ?thesis by blast
qed

lemma dirs_disjoint:
  assumes "distinct (map fst es)"
  shows "set (parsable_dirs E es) \<inter> set (failed_dirs E es) = {}"
proof (rule ccontr)
  assume "set (parsable_dirs E es) \<inter> set (failed_dirs E es) \<noteq> {}"
  then obtain name where p: "name \<in> set (parsable_dirs E es)" and f: "name \<in> set (failed_dirs E es)"
    by blast
  from p obtain a where a: "(name, a) \<in> set es" "dir_metrics E (name, a) \<noteq> None"
    using parsable_dirs_mem by blast
  from f obtain b where b: "(name, b) \<in> set es" "dir_metrics E (name, b) = None"
    using failed_dirs_mem by blast
  from assms a(1) b(1) have "a = b" by (rule entry_unique)
  with a(2) b(2) show False by simp
qed


lemmas scan_defs = collect_all_results_def discover_all_successful_strategies_def
  get_failed_strategies_def cache_entries_def cached_record_def read_json_def stem_without_def
  str_replace_def failed_indicators_def failure_id_def sortable_def sorted_names_def is_str_def
  is_num_def hashable_def parse_strategy_json_data_def load_backtest_data_def py_get_def

lemma demo_parse_A:
  "parse_strategy_json_data demo_env ''A''
     [(''.last_result.json'', File ''pointer''), (''backtest-result.json'', File ''export'')]
   = Some (JObj [(''strategy'', JStr ''A''), (''total_trades'', JInt 12)])"
  by (simp add: scan_defs demo_defs demo_pointer_def demo_export_def str_defs)

lemma demo_parse_unparsed:
  "parse_strategy_json_data demo_env ''A'' [(''A_output.txt'', File ''Result for strategy A'')] = None"
  by (simp add: scan_defs demo_defs)

lemma demo_collect_exported:
  "collect_all_results demo_env (Some (Dir demo_exported)) =
     Inr ([(JStr ''A'', JObj [(''strategy'', JStr ''A''), (''total_trades'', JInt 12)])],
          [JObj [(''strategy'', JStr ''B''), (''error'', JStr ''Backtest failed''),
                 (''failed_timestamp'', JStr ''2025-01-06T09:30:00'')]])"
  by (simp add: scan_defs demo_exported_def demo_defs demo_pointer_def demo_export_def demo_record_def str_defs fs_defs)

lemma demo_collect_unparsed:
  "collect_all_results demo_env (Some (Dir demo_unparsed)) = Inr ([(JStr ''A'', demo_record)], [])"
  by (simp add: scan_defs demo_unparsed_def demo_defs demo_record_def str_defs fs_defs)

lemma demo_collect_both:
  "collect_all_results demo_env (Some (Dir demo_both)) = Inr ([(JStr ''A'', demo_record)], [demo_failure])"
  by (simp add: scan_defs demo_both_def demo_defs demo_record_def demo_failure_def str_defs fs_defs)

lemma demo_separate: "separate_sources demo_env demo_exported"
  by (simp add: separate_sources_def cached_success_ids_def cached_failure_ids_def cached_records_def
      parsable_dirs_def failed_dirs_def dir_parses_def dir_failed_def dir_metrics_def
      scan_defs demo_exported_def demo_defs demo_pointer_def demo_export_def demo_record_def str_defs fs_defs)


lemma hashable_JStr: "hashable (JStr d)"
  by (simp add: hashable_def)

text \<open>
  The second loop adds, for a key the first loop has not set, the first cached record with
  that key.
\<close>

lemma scan_result_files_lookup:
  assumes "hashable k"
  shows "map_of (snd (scan_result_files E cfs acc)) k =
     (case map_of (snd acc) k of
        Some v \<Rightarrow> Some v
      | None \<Rightarrow> map_of (cached_records E ''_result'' cfs) k)"
proof (induction cfs arbitrary: acc)
  case Nil
  show ?case by (simp add: cached_records_def split: option.splits)
next
  case (Cons f rest)
  obtain names results where acc: "acc = (names, results)" by (cases acc)
  show ?case
  proof (cases "endswith (fst f) ''_result.json''")
    case False
    with acc Cons [of acc] show ?thesis
      by (simp add: cached_records_Cons split: option.splits)
  next
    case True
    show ?thesis
    proof (cases "cached_record E ''_result'' f")
      case None
      with True acc Cons [of acc] show ?thesis
        by (simp add: cached_records_Cons split: option.splits)
    next
      case (Some r)
      obtain a b where r: "r = (a, b)" by (cases r)
      show ?thesis
      proof (cases "hashable a \<and> a \<notin> fst ` set results")
        case False
        have step: "scan_result_files E (f # rest) acc = scan_result_files E rest acc"
          using True Some r acc False by auto
        show ?thesis
        proof (cases "a = k")
          case ak: True
          with False assms have "k \<in> fst ` set results" by simp
          then obtain v where "map_of results k = Some v"
            by (metis map_of_eq_None_iff not_Some_eq)
          with step acc Cons [of acc] show ?thesis by (simp split: option.splits)
        next
          case ak: False
          with step True Some r acc Cons [of acc] show ?thesis
            by (simp add: cached_records_Cons split: option.splits)
        qed
      next
        case add: True
        have step: "scan_result_files E (f # rest) acc =
            scan_result_files E rest (names @ [a], AList.update a b results)"
          using True Some r acc add by simp
        from add have none: "map_of results a = None"
          by (simp add: map_of_eq_None_iff)
        show ?thesis
          using step True Some r acc none
            Cons [of "(names @ [a], AList.update a b results)"]
          by (simp add: cached_records_Cons update_conv' split: option.splits)
      qed
    qed
  qed
qed

lemma scan_result_dirs_unparsed:
  assumes "d \<notin> set (parsable_dirs E entries)"
  shows "map_of (snd (scan_result_dirs E entries ([], []))) (JStr d) = None"
proof -
  have "fst ` set (snd (scan_result_dirs E entries ([], []))) \<subseteq>
      JStr ` set (parsable_dirs E entries)"
    using scan_result_dirs_keys [of E entries "([], [])"] by simp
  with assms have "JStr d \<notin> fst ` set (snd (scan_result_dirs E entries ([], [])))"
    by auto
  then show ?thesis by (simp add: map_of_eq_None_iff)
qed

lemma demo_collect_unreadable:
  "collect_all_results demo_env (Some (Dir demo_unreadable)) = Inr ([], [])"
  by (simp add: scan_defs demo_unreadable_def demo_defs str_defs fs_defs)

lemma demo_unparsed_dirs:
  "''A'' \<notin> set (parsable_dirs demo_env demo_unparsed) \<and>
   ''A'' \<notin> set (parsable_dirs demo_env demo_unreadable)"
  by (simp add: parsable_dirs_def dir_parses_def dir_metrics_def demo_unparsed_def
      demo_unreadable_def demo_parse_unparsed)

text \<open>
  C9, as the code has it. When a strategy has an artifact directory for which
  \<open>parse_strategy_json_data\<close> gives metrics and a cached record as well, the success map
  of the scan has exactly one entry for the identifier, and it is the metrics of the
  directory: the cached record does not override it, and no key of the map is duplicated.
  When no directory of that name gives metrics, the entry of the identifier is the first
  record, in the order of the listing, of a file \<^verbatim>\<open>*_result.json\<close> of the cache that loads
  as a dict with that identifier, and the map has no entry for the identifier when no file
  of the cache loads as such.
\<close>

theorem collect_all_results_prefers_directory:
  "(collect_all_results E rdir = Inr (results, failed) \<and> rdir = Some (Dir entries) \<and>
    distinct (map fst entries) \<and> (d, Dir files) \<in> set entries \<and> d \<noteq> ''individual_results'' \<and>
    parse_strategy_json_data E d files = Some metrics \<longrightarrow>
      map_of results (JStr d) = Some metrics \<and> distinct (map fst results)) \<and>
   (collect_all_results E rdir = Inr (results, failed) \<and> rdir = Some (Dir entries) \<and>
    d \<notin> set (parsable_dirs E entries) \<longrightarrow>
      map_of results (JStr d) =
        map_of (cached_records E ''_result'' (cache_entries rdir)) (JStr d) \<and>
      distinct (map fst results))"
proof (intro conjI impI)
  assume a: "collect_all_results E rdir = Inr (results, failed) \<and> rdir = Some (Dir entries) \<and>
   distinct (map fst entries) \<and> (d, Dir files) \<in> set entries \<and> d \<noteq> ''individual_results'' \<and>
   parse_strategy_json_data E d files = Some metrics"
  let ?dirs = "scan_result_dirs E entries ([], [])"
  from a have r: "results = snd (scan_result_files E (cache_entries rdir) ?dirs)"
    using collect_results_eq(1) by blast
  from a have look: "map_of (snd ?dirs) (JStr d) = Some metrics"
    using scan_result_dirs_lookup by blast
  then have "JStr d \<in> fst ` set (snd ?dirs)"
    by (metis map_of_eq_None_iff option.distinct(1))
  then have "map_of results (JStr d) = map_of (snd ?dirs) (JStr d)"
    unfolding r by (rule scan_result_files_keeps)
  with look show "map_of results (JStr d) = Some metrics" by simp
next
  assume a: "collect_all_results E rdir = Inr (results, failed) \<and> rdir = Some (Dir entries) \<and>
   distinct (map fst entries) \<and> (d, Dir files) \<in> set entries \<and> d \<noteq> ''individual_results'' \<and>
   parse_strategy_json_data E d files = Some metrics"
  let ?dirs = "scan_result_dirs E entries ([], [])"
  from a have r: "results = snd (scan_result_files E (cache_entries rdir) ?dirs)"
    using collect_results_eq(1) by blast
  show "distinct (map fst results)"
    unfolding r
    by (rule scan_result_files_distinct, rule scan_result_dirs_distinct) simp
next
  assume a: "collect_all_results E rdir = Inr (results, failed) \<and> rdir = Some (Dir entries) \<and>
    d \<notin> set (parsable_dirs E entries)"
  let ?dirs = "scan_result_dirs E entries ([], [])"
  from a have r: "results = snd (scan_result_files E (cache_entries rdir) ?dirs)"
    using collect_results_eq(1) by blast
  from a have none: "map_of (snd ?dirs) (JStr d) = None"
    by (simp add: scan_result_dirs_unparsed)
  show "map_of results (JStr d) =
      map_of (cached_records E ''_result'' (cache_entries rdir)) (JStr d)"
    unfolding r by (simp add: scan_result_files_lookup [OF hashable_JStr] none)
next
  assume a: "collect_all_results E rdir = Inr (results, failed) \<and> rdir = Some (Dir entries) \<and>
    d \<notin> set (parsable_dirs E entries)"
  let ?dirs = "scan_result_dirs E entries ([], [])"
  from a have r: "results = snd (scan_result_files E (cache_entries rdir) ?dirs)"
    using collect_results_eq(1) by blast
  show "distinct (map fst results)"
    unfolding r
    by (rule scan_result_files_distinct, rule scan_result_dirs_distinct) simp
qed

theorem collect_all_results_prefers_directory_witness:
  "collect_all_results demo_env (Some (Dir demo_exported)) =
     Inr ([(JStr ''A'', JObj [(''strategy'', JStr ''A''), (''total_trades'', JInt 12)])],
          [JObj [(''strategy'', JStr ''B''), (''error'', JStr ''Backtest failed''),
                 (''failed_timestamp'', JStr ''2025-01-06T09:30:00'')]]) \<and>
   distinct (map fst demo_exported) \<and>
   (''A'', Dir [(''.last_result.json'', File ''pointer''),
                (''backtest-result.json'', File ''export'')]) \<in> set demo_exported \<and>
   stored_result (json_load demo_env) (Some (Dir demo_exported)) ''A'' = Some demo_record \<and>
   parse_strategy_json_data demo_env ''A''
     [(''.last_result.json'', File ''pointer''), (''backtest-result.json'', File ''export'')]
     = Some (JObj [(''strategy'', JStr ''A''), (''total_trades'', JInt 12)]) \<and>
   map_of [(JStr ''A'', JObj [(''strategy'', JStr ''A''), (''total_trades'', JInt 12)])] (JStr ''A'')
     = Some (JObj [(''strategy'', JStr ''A''), (''total_trades'', JInt 12 :: real json)]) \<and>
   ''A'' \<notin> set (parsable_dirs demo_env demo_unparsed) \<and>
   collect_all_results demo_env (Some (Dir demo_unparsed)) = Inr ([(JStr ''A'', demo_record)], []) \<and>
   map_of (cached_records demo_env ''_result'' (cache_entries (Some (Dir demo_unparsed))))
     (JStr ''A'') = Some demo_record \<and>
   ''A'' \<notin> set (parsable_dirs demo_env demo_unreadable) \<and>
   collect_all_results demo_env (Some (Dir demo_unreadable)) = Inr ([], []) \<and>
   map_of (cached_records demo_env ''_result'' (cache_entries (Some (Dir demo_unreadable))))
     (JStr ''A'') = None"
proof -
  have d: "distinct (map fst demo_exported)"
    by (simp add: demo_exported_def)
  have m: "(''A'', Dir [(''.last_result.json'', File ''pointer''),
      (''backtest-result.json'', File ''export'')]) \<in> set demo_exported"
    by (simp add: demo_exported_def)
  have c: "stored_result (json_load demo_env) (Some (Dir demo_exported)) ''A'' = Some demo_record"
    by (simp add: stored_result_def fs_defs demo_exported_def demo_defs)
  have n: "''A'' \<noteq> ''individual_results''" by simp
  from collect_all_results_prefers_directory
    [where E = demo_env and rdir = "Some (Dir demo_exported)" and entries = demo_exported
      and d = "''A''" and failed = "[JObj [(''strategy'', JStr ''B''),
        (''error'', JStr ''Backtest failed''),
        (''failed_timestamp'', JStr ''2025-01-06T09:30:00'')]]"
      and results = "[(JStr ''A'', JObj [(''strategy'', JStr ''A''), (''total_trades'', JInt 12)])]"
      and files = "[(''.last_result.json'', File ''pointer''),
        (''backtest-result.json'', File ''export'')]"
      and metrics = "JObj [(''strategy'', JStr ''A''), (''total_trades'', JInt 12)]",
      THEN conjunct1]
    demo_collect_exported d m n demo_parse_A
  have e: "map_of [(JStr ''A'', JObj [(''strategy'', JStr ''A''), (''total_trades'', JInt 12)])]
      (JStr ''A'') = Some (JObj [(''strategy'', JStr ''A''), (''total_trades'', JInt 12 :: real json)])"
    by simp
  note u1 = demo_unparsed_dirs [THEN conjunct1]
  note u2 = demo_unparsed_dirs [THEN conjunct2]
  from collect_all_results_prefers_directory
    [where E = demo_env and rdir = "Some (Dir demo_unparsed)" and entries = demo_unparsed
      and d = "''A''" and failed = "[]" and results = "[(JStr ''A'', demo_record)]",
      THEN conjunct2]
    demo_collect_unparsed u1
  have f: "map_of (cached_records demo_env ''_result'' (cache_entries (Some (Dir demo_unparsed))))
     (JStr ''A'') = Some demo_record"
    by simp
  from collect_all_results_prefers_directory
    [where E = demo_env and rdir = "Some (Dir demo_unreadable)" and entries = demo_unreadable
      and d = "''A''" and failed = "[]" and results = "[]", THEN conjunct2]
    demo_collect_unreadable u2
  have g: "map_of (cached_records demo_env ''_result'' (cache_entries (Some (Dir demo_unreadable))))
     (JStr ''A'') = None"
    by simp
  show ?thesis
    by (intro conjI demo_collect_exported d m c demo_parse_A e u1 demo_collect_unparsed f u2
        demo_collect_unreadable g)
qed

text \<open>
  C9 as stated fails: an artifact directory that holds no parsable export yields no
  record, and the entry of the identifier is then the cached record.
\<close>

theorem collect_all_results_cache_counterexample:
  "child (Some (Dir demo_unparsed)) ''A'' =
     Some (Dir [(''A_output.txt'', File ''Result for strategy A'')]) \<and>
   stored_result (json_load demo_env) (Some (Dir demo_unparsed)) ''A'' = Some demo_record \<and>
   parse_strategy_json_data demo_env ''A''
     [(''A_output.txt'', File ''Result for strategy A'')] = None \<and>
   collect_all_results demo_env (Some (Dir demo_unparsed)) =
     Inr ([(JStr ''A'', demo_record)], [])"
proof -
  have a: "child (Some (Dir demo_unparsed)) ''A'' =
      Some (Dir [(''A_output.txt'', File ''Result for strategy A'')])"
    by (simp add: child_def demo_unparsed_def)
  have c: "stored_result (json_load demo_env) (Some (Dir demo_unparsed)) ''A'' = Some demo_record"
    by (simp add: stored_result_def fs_defs demo_unparsed_def demo_defs)
  from a c demo_parse_unparsed demo_collect_unparsed show ?thesis by blast
qed

lemma sources_disjoint:
  "R \<subseteq> P \<union> CS \<Longrightarrow> Fl \<subseteq> F \<union> CF \<Longrightarrow> P \<inter> F = {} \<Longrightarrow> CS \<inter> (F \<union> CF) = {} \<Longrightarrow>
   CF \<inter> P = {} \<Longrightarrow> R \<inter> Fl = {}"
  by blast

text \<open>
  C6, as the code has it. A directory is never both a success source and a failure
  source. Every key of the success map is the name of a directory with metrics or the
  identifier of a cached success record, and the identifier of every failure record is
  the name of a failed directory or that of a cached failure record. So the success map
  and the failure list are disjoint whenever the sources are separate: the cached success
  records and the cached failure records are kept in files of their own and are not
  checked against each other.
\<close>

theorem collect_all_results_disjoint:
  "collect_all_results E (Some (Dir entries)) = Inr (results, failed) \<and>
   distinct (map fst entries) \<longrightarrow>
     set (parsable_dirs E entries) \<inter> set (failed_dirs E entries) = {} \<and>
     fst ` set results \<subseteq>
       JStr ` set (parsable_dirs E entries) \<union> set (cached_success_ids E entries) \<and>
     failure_id ` set failed \<subseteq>
       JStr ` set (failed_dirs E entries) \<union> set (cached_failure_ids E entries) \<and>
     (separate_sources E entries \<longrightarrow> fst ` set results \<inter> failure_id ` set failed = {})"
proof
  assume a: "collect_all_results E (Some (Dir entries)) = Inr (results, failed) \<and>
    distinct (map fst entries)"
  let ?C = "cache_entries (Some (Dir entries))"
  let ?D = "scan_result_dirs E entries ([], [])"
  let ?P = "JStr ` set (parsable_dirs E entries)"
  let ?F = "JStr ` set (failed_dirs E entries)"
  let ?CS = "set (cached_success_ids E entries)"
  let ?CF = "set (cached_failure_ids E entries)"
  from a have r: "results = snd (scan_result_files E ?C ?D)"
    using collect_results_eq(1) by blast
  from a have f: "failed = scan_failed_files E ?C (scan_failed_dirs E entries [])"
    using collect_results_eq(2) by blast
  have dis: "set (parsable_dirs E entries) \<inter> set (failed_dirs E entries) = {}"
    using a dirs_disjoint by blast
  have k1: "fst ` set (snd ?D) \<subseteq> ?P"
    using scan_result_dirs_keys [of E entries "([], [])"] by simp
  have k2: "fst ` set results \<subseteq> fst ` set (snd ?D) \<union> ?CS"
    unfolding r cached_success_ids_def set_map
    by (rule scan_result_files_keys)
  from k1 k2 have keys: "fst ` set results \<subseteq> ?P \<union> ?CS" by blast
  have i1: "failure_id ` set (scan_failed_dirs E entries []) \<subseteq> ?F"
    using scan_failed_dirs_ids [of E entries "[]"] by simp
  have i2: "failure_id ` set failed \<subseteq> failure_id ` set (scan_failed_dirs E entries []) \<union> ?CF"
    unfolding f cached_failure_ids_def set_map
    by (rule scan_failed_files_ids)
  from i1 i2 have ids: "failure_id ` set failed \<subseteq> ?F \<union> ?CF" by blast
  have pf: "?P \<inter> ?F = {}"
    using dis by blast
  have sep: "separate_sources E entries \<longrightarrow> fst ` set results \<inter> failure_id ` set failed = {}"
  proof
    assume s: "separate_sources E entries"
    then have s1: "?CS \<inter> (?F \<union> ?CF) = {}" and s2: "?CF \<inter> ?P = {}"
      by (simp_all add: separate_sources_def)
    from keys ids pf s1 s2 show "fst ` set results \<inter> failure_id ` set failed = {}"
      by (rule sources_disjoint)
  qed
  show "set (parsable_dirs E entries) \<inter> set (failed_dirs E entries) = {} \<and>
     fst ` set results \<subseteq>
       JStr ` set (parsable_dirs E entries) \<union> set (cached_success_ids E entries) \<and>
     failure_id ` set failed \<subseteq>
       JStr ` set (failed_dirs E entries) \<union> set (cached_failure_ids E entries) \<and>
     (separate_sources E entries \<longrightarrow> fst ` set results \<inter> failure_id ` set failed = {})"
    by (intro conjI dis keys ids sep)
qed

theorem collect_all_results_disjoint_witness:
  "collect_all_results demo_env (Some (Dir demo_exported)) =
     Inr ([(JStr ''A'', JObj [(''strategy'', JStr ''A''), (''total_trades'', JInt 12)])],
          [JObj [(''strategy'', JStr ''B''), (''error'', JStr ''Backtest failed''),
                 (''failed_timestamp'', JStr ''2025-01-06T09:30:00'')]]) \<and>
   distinct (map fst demo_exported) \<and> separate_sources demo_env demo_exported \<and>
   fst ` set [(JStr ''A'', JObj [(''strategy'', JStr ''A''), (''total_trades'', JInt 12 :: real json)])] \<inter>
   failure_id ` set [JObj [(''strategy'', JStr ''B''), (''error'', JStr ''Backtest failed''),
                 (''failed_timestamp'', JStr ''2025-01-06T09:30:00'')]] = {}"
proof -
  have d: "distinct (map fst demo_exported)"
    by (simp add: demo_exported_def)
  from collect_all_results_disjoint
    [where E = demo_env and entries = demo_exported
      and failed = "[JObj [(''strategy'', JStr ''B''), (''error'', JStr ''Backtest failed''),
        (''failed_timestamp'', JStr ''2025-01-06T09:30:00'')]]"
      and results = "[(JStr ''A'', JObj [(''strategy'', JStr ''A''), (''total_trades'', JInt 12)])]"]
    demo_collect_exported d demo_separate
  have "fst ` set [(JStr ''A'', JObj [(''strategy'', JStr ''A''), (''total_trades'', JInt 12 :: real json)])] \<inter>
      failure_id ` set [JObj [(''strategy'', JStr ''B''), (''error'', JStr ''Backtest failed''),
                 (''failed_timestamp'', JStr ''2025-01-06T09:30:00'')]] = {}"
    by (simp add: failure_id_def py_get_def)
  with demo_collect_exported d demo_separate show ?thesis by simp
qed

text \<open>
  C6 as stated fails: with a cached success record and a cached failure record of the same
  strategy, as a failed run followed by a successful retry leaves them, the identifier is
  a key of the success map and the identifier of a failure record.
\<close>

theorem collect_all_results_overlap_counterexample:
  "collect_all_results demo_env (Some (Dir demo_both)) =
     Inr ([(JStr ''A'', demo_record)], [demo_failure]) \<and>
   JStr ''A'' \<in> fst ` set [(JStr ''A'', demo_record)] \<and>
   py_get demo_failure ''strategy'' JNull = Some (JStr ''A'')"
proof -
  have "py_get demo_failure ''strategy'' JNull = Some (JStr ''A'')"
    by (simp add: py_get_def demo_failure_def)
  with demo_collect_both show ?thesis by simp
qed

end
